theory Spec2Isabelle
  imports Main "HOL-Library.Sublist" "HOL-Library.Word"
begin

section \<open>Values, errors and the outside world\<close>

text \<open>
  The repository is one Python function, \<^verbatim>\<open>render_to_img\<close> of \<^verbatim>\<open>src/render/x.py\<close>.
  It formats a few strings, writes one file into a scoped temporary directory and runs
  two external programs. The embedding keeps every step of the function and makes the
  outside world explicit: the file system is a partial map from paths to nodes, every
  interaction with the operating system is answered by an environment, and every effect
  is appended to a trace.
\<close>

text \<open>The argument \<^verbatim>\<open>input\<close> is a Python \<^verbatim>\<open>str\<close> or \<^verbatim>\<open>bytes\<close> object.\<close>

datatype pyval = Str string | Bytes "8 word list"

text \<open>
  Exceptions are values. \<^verbatim>\<open>TypeError\<close> is what \<^verbatim>\<open>str + bytes\<close> raises, \<^verbatim>\<open>OSError\<close>
  stands for every failure of the operating system (no such file, no such executable, no
  space), \<^verbatim>\<open>CalledProcessError\<close> is raised by \<^verbatim>\<open>k3proc.command_ex\<close> with the exit code and
  the two captured streams.
\<close>

datatype error = TypeError | OSError string | CalledProcessError int pyval pyval

text \<open>
  One call of \<^verbatim>\<open>k3proc.command_ex(cmd, *arguments, **options)\<close>: the executable, its
  arguments, and the two options the function uses (\<^verbatim>\<open>None\<close> when the option is not
  passed).
\<close>

record proc_call =
  cmd :: string
  args :: "string list"
  cwd :: "string option"
  text_opt :: "bool option"

type_synonym proc_result = "error + (int \<times> pyval \<times> pyval)"

datatype node = Dir | File pyval

type_synonym fs = "string \<rightharpoonup> node"

datatype event =
    MkDTemp string
  | Open string string
  | Write string pyval
  | Exec proc_call proc_result
  | Cleanup string "error option"

record world =
  files :: fs
  trace :: "event list"

text \<open>
  The environment holds what the function reads from its module and from the system:
  \<^item> \<^verbatim>\<open>sys.platform\<close>;
  \<^item> the module-level dictionary \<^verbatim>\<open>mimetypes\<close>, whose definition is not part of the
    sources at hand: it is a parameter, given as the list of its items in dictionary
    order (the order \<^verbatim>\<open>mimetypes.items()\<close> iterates in);
  \<^item> the outcome of \<^verbatim>\<open>tempfile.TemporaryDirectory()\<close>: an error or the path created;
  \<^item> the outcome of \<^verbatim>\<open>open(fn, flags)\<close> and of \<^verbatim>\<open>f.write(input)\<close>: an error or none;
  \<^item> the outcome of starting a process: an error when it cannot be launched, otherwise
    exit code, standard output and standard error, together with the file system the
    process leaves behind;
  \<^item> the outcome of removing the temporary directory when the \<^verbatim>\<open>with\<close> statement is left:
    none when the removal succeeds, otherwise the error it raises and the file system
    the failed removal leaves behind.
\<close>

record env =
  platform :: string
  mimetypes :: "(string \<times> string) list"
  mkdtemp :: "fs \<Rightarrow> error + string"
  open_err :: "string \<Rightarrow> string \<Rightarrow> fs \<Rightarrow> error option"
  write_err :: "string \<Rightarrow> pyval \<Rightarrow> fs \<Rightarrow> error option"
  spawn :: "proc_call \<Rightarrow> fs \<Rightarrow> proc_result \<times> fs"
  rmtree_fail :: "string \<Rightarrow> fs \<Rightarrow> (error \<times> fs) option"

section \<open>String operations of Python\<close>

text \<open>\<^verbatim>\<open>s.startswith(p)\<close>.\<close>

fun startswith :: "string \<Rightarrow> string \<Rightarrow> bool" where
  "startswith s [] = True"
| "startswith [] (p # ps) = False"
| "startswith (c # s) (p # ps) = (c = p \<and> startswith s ps)"

text \<open>\<^verbatim>\<open>sub in s\<close> on two strings: \<^verbatim>\<open>sub\<close> occurs in \<^verbatim>\<open>s\<close> as a contiguous substring.\<close>

fun contains :: "string \<Rightarrow> string \<Rightarrow> bool" where
  "contains [] sub = (sub = [])"
| "contains (c # s) sub = (startswith (c # s) sub \<or> contains s sub)"

text \<open>\<^verbatim>\<open>s + x\<close> with \<^verbatim>\<open>s\<close> a \<^verbatim>\<open>str\<close>: concatenation, or \<^verbatim>\<open>TypeError\<close> when \<^verbatim>\<open>x\<close> is \<^verbatim>\<open>bytes\<close>.\<close>

fun str_add :: "string \<Rightarrow> pyval \<Rightarrow> error + pyval" where
  "str_add s (Str t) = Inr (Str (s @ t))"
| "str_add s (Bytes b) = Inl TypeError"

text \<open>\<^verbatim>\<open>isinstance(x, bytes)\<close>.\<close>

fun isinstance_bytes :: "pyval \<Rightarrow> bool" where
  "isinstance_bytes (Bytes b) = True"
| "isinstance_bytes (Str s) = False"

text \<open>\<^verbatim>\<open>'{}'.format(n)\<close> for an \<^verbatim>\<open>int\<close>: its decimal numeral, with a minus sign below zero.\<close>

function str_nat :: "nat \<Rightarrow> string" where
  "str_nat n = (if n < 10 then [''0123456789'' ! n]
                else str_nat (n div 10) @ [''0123456789'' ! (n mod 10)])"
  by pat_completeness auto
termination
  by (relation "measure (\<lambda>n. n)") auto

declare str_nat.simps [simp del]

definition str_int :: "int \<Rightarrow> string" where
  "str_int i = (if i < 0 then CHR ''-'' # str_nat (nat (- i)) else str_nat (nat i))"

text \<open>
  \<^verbatim>\<open>os.path.join(a, b)\<close> with the POSIX separator (the function only runs where the
  browser is found under a POSIX path): an absolute \<^verbatim>\<open>b\<close> replaces \<^verbatim>\<open>a\<close>, otherwise the
  two are joined by one separator.
\<close>

definition path_join :: "string \<Rightarrow> string \<Rightarrow> string" where
  "path_join a b =
     (if startswith b ''/'' then b
      else if a = [] \<or> last a = CHR ''/'' then a @ b
      else a @ ''/'' @ b)"

text \<open>
  Modelled from the spec: line 81 calls \<^verbatim>\<open>pjoin\<close>, a name the module binds outside the
  function. The converter is invoked on \<^verbatim>\<open>screenshot.png\<close>, the file the browser writes into
  its working directory, the temporary directory; so \<^verbatim>\<open>pjoin\<close> joins like
  \<^verbatim>\<open>os.path.join\<close>.
\<close>

definition pjoin :: "string \<Rightarrow> string \<Rightarrow> string" where
  "pjoin a b = path_join a b"

section \<open>Lines 25 to 30: the HTML directives\<close>

definition meta_directive :: string where
  \<open>meta_directive = ''<meta http-equiv="Content-Type" content="text/html; charset=utf-8"/>''\<close>

text \<open>\<^verbatim>\<open>r'<base href="file://{}/">'.format(asset_base)\<close>.\<close>

definition base_directive :: "string \<Rightarrow> string" where
  \<open>base_directive asset_base = ''<base href="file://'' @ asset_base @ ''/">''\<close>

definition prepend_html :: "string \<Rightarrow> pyval \<Rightarrow> string option \<Rightarrow> error + pyval" where
  "prepend_html mime input asset_base =
     (if contains mime ''html'' then
        (case str_add meta_directive input of
           Inl e \<Rightarrow> Inl e
         | Inr input1 \<Rightarrow>
             (case asset_base of
                None \<Rightarrow> Inr input1
              | Some ab \<Rightarrow> str_add (base_directive ab) input1))
      else Inr input)"

section \<open>Lines 32 to 42: the suffix of the temporary file\<close>

text \<open>
  \<^verbatim>\<open>mimetypes.get(mime) or mime\<close>: the value stored under the key, unless there is none or
  it is the empty string.
\<close>

definition resolve_mime :: "(string \<times> string) list \<Rightarrow> string \<Rightarrow> string" where
  "resolve_mime tbl mime =
     (case map_of tbl mime of
        None \<Rightarrow> mime
      | Some v \<Rightarrow> if v = [] then mime else v)"

text \<open>
  The loop over \<^verbatim>\<open>mimetypes.items()\<close>: the first key whose value is \<^verbatim>\<open>m\<close> replaces the
  suffix and ends the loop.
\<close>

fun suffix_loop :: "(string \<times> string) list \<Rightarrow> string \<Rightarrow> string \<Rightarrow> string" where
  "suffix_loop [] m sfx = sfx"
| "suffix_loop ((k, v) # kvs) m sfx = (if v = m then k else suffix_loop kvs m sfx)"

definition derive_suffix :: "(string \<times> string) list \<Rightarrow> string \<Rightarrow> string" where
  "derive_suffix tbl mime = suffix_loop tbl (resolve_mime tbl mime) mime"

section \<open>Lines 44 to 47: the browser executable\<close>

definition chrome_path :: "string \<Rightarrow> string" where
  "chrome_path plat =
     (if plat = ''darwin'' then ''/Applications/Google Chrome.app/Contents/MacOS/Google Chrome''
      else ''google-chrome'')"

section \<open>Effects\<close>

definition log :: "event \<Rightarrow> world \<Rightarrow> world" where
  "log ev w = w\<lparr>trace := trace w @ [ev]\<rparr>"

text \<open>
  \<^verbatim>\<open>with open(fn, flags) as f: f.write(input)\<close>. The attempt to open is logged; the
  content is logged, and stored, once it is written.
\<close>

definition write_file :: "env \<Rightarrow> string \<Rightarrow> string \<Rightarrow> pyval \<Rightarrow> world \<Rightarrow> (error + unit) \<times> world" where
  "write_file E fn flags input w =
     (let w1 = log (Open fn flags) w in
      case open_err E fn flags (files w1) of
        Some e \<Rightarrow> (Inl e, w1)
      | None \<Rightarrow>
          (case write_err E fn input (files w1) of
             Some e \<Rightarrow> (Inl e, w1)
           | None \<Rightarrow> (Inr (), log (Write fn input) (w1\<lparr>files := (files w1)(fn \<mapsto> File input)\<rparr>))))"

text \<open>
  \<^verbatim>\<open>k3proc.command_ex\<close>: runs the command once; an error of the launch is raised as it is,
  an exit code other than zero is raised as \<^verbatim>\<open>CalledProcessError\<close>, otherwise the triple
  of exit code, standard output and standard error is returned.
\<close>

definition command_ex :: "env \<Rightarrow> proc_call \<Rightarrow> world \<Rightarrow> (error + (int \<times> pyval \<times> pyval)) \<times> world" where
  "command_ex E pc w =
     (case spawn E pc (files w) of
        (r, fs') \<Rightarrow>
          (let w1 = log (Exec pc r) (w\<lparr>files := fs'\<rparr>) in
           case r of
             Inl e \<Rightarrow> (Inl e, w1)
           | Inr (code, out, err) \<Rightarrow>
               if code \<noteq> 0 then (Inl (CalledProcessError code out err), w1)
               else (Inr (code, out, err), w1)))"

text \<open>
  The paths below a directory begin with its name and one separator, the way
  \<^verbatim>\<open>os.path.join\<close> forms them.
\<close>

definition dir_prefix :: "string \<Rightarrow> string" where
  "dir_prefix d = (if d = [] \<or> last d = CHR ''/'' then d else d @ ''/'')"

text \<open>A removal that succeeds: the directory is gone with everything below it.\<close>

definition rmtree :: "string \<Rightarrow> fs \<Rightarrow> fs" where
  "rmtree d fs = (\<lambda>p. if p = d \<or> startswith p (dir_prefix d) then None else fs p)"

text \<open>
  \<^verbatim>\<open>with tempfile.TemporaryDirectory() as tdir: body\<close>. When the directory cannot be
  created the body does not run. Otherwise the body runs, and whether it returned or
  raised, the context manager then removes the directory (\<^verbatim>\<open>__exit__\<close> calls \<^verbatim>\<open>cleanup\<close>,
  which calls \<^verbatim>\<open>shutil.rmtree\<close>; errors of the removal are not ignored). When the removal
  succeeds, the outcome of the body is the outcome of the statement. When the removal
  fails, its error is raised in place of whatever the body returned or raised, and the
  directory may remain.
\<close>

definition with_TemporaryDirectory ::
  "env \<Rightarrow> (string \<Rightarrow> world \<Rightarrow> (error + 'a) \<times> world) \<Rightarrow> world \<Rightarrow> (error + 'a) \<times> world" where
  "with_TemporaryDirectory E body w =
     (case mkdtemp E (files w) of
        Inl e \<Rightarrow> (Inl e, w)
      | Inr tdir \<Rightarrow>
          (case body tdir (log (MkDTemp tdir) (w\<lparr>files := (files w)(tdir \<mapsto> Dir)\<rparr>)) of
             (r, w2) \<Rightarrow>
               (case rmtree_fail E tdir (files w2) of
                  None \<Rightarrow>
                    (r, log (Cleanup tdir None) (w2\<lparr>files := rmtree tdir (files w2)\<rparr>))
                | Some (e, fs') \<Rightarrow>
                    (Inl e, log (Cleanup tdir (Some e)) (w2\<lparr>files := fs'\<rparr>)))))"

section \<open>Lines 49 to 89: the two processes\<close>

definition browser_call :: "string \<Rightarrow> int \<Rightarrow> int \<Rightarrow> string \<Rightarrow> string \<Rightarrow> proc_call" where
  "browser_call chrome width height fn tdir =
     \<lparr>cmd = chrome,
      args = [''--headless'', ''--disable-gpu'', ''--no-sandbox'', ''--screenshot'',
              ''--window-size='' @ str_int width @ '','' @ str_int height,
              ''--default-background-color=00000000'',
              fn],
      cwd = Some tdir,
      text_opt = None\<rparr>"

definition moreargs :: "string \<Rightarrow> string list" where
  "moreargs typ =
     (if typ = ''png'' then []
      else [''-background'', ''white'', ''-flatten'', ''-alpha'', ''off''])"

definition convert_call :: "string \<Rightarrow> string \<Rightarrow> proc_call" where
  "convert_call tdir typ =
     \<lparr>cmd = ''convert'',
      args = [pjoin tdir ''screenshot.png'', ''-trim'', ''+repage'']
             @ moreargs typ @ [typ @ '':-''],
      cwd = None,
      text_opt = Some False\<rparr>"

definition render_body ::
  "env \<Rightarrow> string \<Rightarrow> string \<Rightarrow> pyval \<Rightarrow> string \<Rightarrow> int \<Rightarrow> int \<Rightarrow> string \<Rightarrow> world
     \<Rightarrow> (error + pyval) \<times> world" where
  "render_body E sfx chrome input typ width height tdir w =
     (let fn = path_join tdir (''xxx.'' @ sfx);
          flags = (if isinstance_bytes input then ''wb'' else ''w'')
      in case write_file E fn flags input w of
           (Inl e, w1) \<Rightarrow> (Inl e, w1)
         | (Inr u, w1) \<Rightarrow>
             (case command_ex E (browser_call chrome width height fn tdir) w1 of
                (Inl e, w2) \<Rightarrow> (Inl e, w2)
              | (Inr r1, w2) \<Rightarrow>
                  (case command_ex E (convert_call tdir typ) w2 of
                     (Inl e, w3) \<Rightarrow> (Inl e, w3)
                   | (Inr (code, out, err), w3) \<Rightarrow> (Inr out, w3))))"

section \<open>The function\<close>

definition render_to_img ::
  "env \<Rightarrow> string \<Rightarrow> pyval \<Rightarrow> string \<Rightarrow> int \<Rightarrow> int \<Rightarrow> string option \<Rightarrow> world
     \<Rightarrow> (error + pyval) \<times> world" where
  "render_to_img E mime input typ width height asset_base w =
     (case prepend_html mime input asset_base of
        Inl e \<Rightarrow> (Inl e, w)
      | Inr input1 \<Rightarrow>
          (let sfx = derive_suffix (mimetypes E) mime;
               chrome = chrome_path (platform E)
           in with_TemporaryDirectory E
                (render_body E sfx chrome input1 typ width height) w))"

text \<open>
  A call is observed from a file system \<open>fs\<close> with an empty trace: its outcome (the value
  returned or the exception raised), the effects in the order they happened, and the
  file system it leaves behind.
\<close>

definition result_of ::
  "env \<Rightarrow> string \<Rightarrow> pyval \<Rightarrow> string \<Rightarrow> int \<Rightarrow> int \<Rightarrow> string option \<Rightarrow> fs \<Rightarrow> error + pyval" where
  "result_of E mime input typ width height asset_base fs =
     fst (render_to_img E mime input typ width height asset_base \<lparr>files = fs, trace = []\<rparr>)"

definition events_of ::
  "env \<Rightarrow> string \<Rightarrow> pyval \<Rightarrow> string \<Rightarrow> int \<Rightarrow> int \<Rightarrow> string option \<Rightarrow> fs \<Rightarrow> event list" where
  "events_of E mime input typ width height asset_base fs =
     trace (snd (render_to_img E mime input typ width height asset_base \<lparr>files = fs, trace = []\<rparr>))"

definition files_after ::
  "env \<Rightarrow> string \<Rightarrow> pyval \<Rightarrow> string \<Rightarrow> int \<Rightarrow> int \<Rightarrow> string option \<Rightarrow> fs \<Rightarrow> fs" where
  "files_after E mime input typ width height asset_base fs =
     files (snd (render_to_img E mime input typ width height asset_base \<lparr>files = fs, trace = []\<rparr>))"

text \<open>The processes started, in order, and the contents written, in order.\<close>

fun execs :: "event list \<Rightarrow> proc_call list" where
  "execs [] = []"
| "execs (Exec pc r # evs) = pc # execs evs"
| "execs (ev # evs) = execs evs"

fun written :: "event list \<Rightarrow> pyval list" where
  "written [] = []"
| "written (Write fn c # evs) = c # written evs"
| "written (ev # evs) = written evs"

text \<open>A process failed when it could not be launched or exited with a code other than zero.\<close>

fun failed :: "proc_result \<Rightarrow> bool" where
  "failed (Inl e) = True"
| "failed (Inr (code, out, err)) = (code \<noteq> 0)"

text \<open>The exception \<^verbatim>\<open>k3proc.command_ex\<close> raises for a failed process.\<close>

fun raised :: "proc_result \<Rightarrow> error" where
  "raised (Inl e) = e"
| "raised (Inr (code, out, err)) = CalledProcessError code out err"

section \<open>Sample environments\<close>

text \<open>
  A table with two aliases of one MIME string, as tables of file extensions have them,
  and a system where both tools work: the browser leaves \<^verbatim>\<open>screenshot.png\<close> in its
  working directory, the converter prints four bytes.
\<close>

definition sample_table :: "(string \<times> string) list" where
  "sample_table =
     [(''jpg'', ''image/jpeg''), (''jpeg'', ''image/jpeg''), (''png'', ''image/png''),
      (''svg'', ''image/svg+xml''), (''html'', ''text/html''),
      (''xhtml'', ''application/xhtml+xml'')]"

definition sample_spawn :: "proc_call \<Rightarrow> fs \<Rightarrow> proc_result \<times> fs" where
  "sample_spawn pc fs =
     (if cmd pc = ''convert'' then (Inr (0, Bytes [0x89, 0x50, 0x4E, 0x47], Bytes []), fs)
      else (Inr (0, Str [], Str []),
            (case cwd pc of
               None \<Rightarrow> fs
             | Some d \<Rightarrow> fs(path_join d ''screenshot.png'' \<mapsto> File (Bytes [0x89])))))"

definition sample_env :: env where
  "sample_env =
     \<lparr>platform = ''linux'',
      mimetypes = sample_table,
      mkdtemp = (\<lambda>fs. Inr ''/tmp/tmpk3''),
      open_err = (\<lambda>fn flags fs. None),
      write_err = (\<lambda>fn c fs. None),
      spawn = sample_spawn,
      rmtree_fail = (\<lambda>d fs. None)\<rparr>"

text \<open>The same system with a browser that exits with code 1.\<close>

definition broken_env :: env where
  "broken_env =
     sample_env\<lparr>spawn := (\<lambda>pc fs. (Inr (1, Str [], Str ''no display''), fs))\<rparr>"

text \<open>The same system without the browser executable: it cannot be launched.\<close>

definition missing_env :: env where
  "missing_env =
     sample_env\<lparr>spawn := (\<lambda>pc fs.
        if cmd pc = ''convert'' then sample_spawn pc fs
        else (Inl (OSError ''No such file or directory''), fs))\<rparr>"

text \<open>
  The sample system where the temporary directory cannot be removed: the removal raises
  and leaves everything in place.
\<close>

definition stuck_env :: env where
  "stuck_env =
     sample_env\<lparr>rmtree_fail := (\<lambda>d fs. Some (OSError ''Operation not permitted'', fs))\<rparr>"

text \<open>The system where the browser exits with code 1 and the removal fails as well.\<close>

definition broken_stuck_env :: env where
  "broken_stuck_env =
     broken_env\<lparr>rmtree_fail := (\<lambda>d fs. Some (OSError ''Operation not permitted'', fs))\<rparr>"

definition fs0 :: fs where
  "fs0 = [''/tmp'' \<mapsto> Dir]"

section \<open>Basic facts\<close>

text \<open>The two string tests are the library's \<open>prefix\<close> and \<open>sublist\<close>.\<close>

lemma startswith_prefix: "startswith s p = prefix p s"
  by (induction s p rule: startswith.induct) auto

lemma contains_sublist: "contains s p = sublist p s"
proof (induction s)
  case Nil
  then show ?case by auto
next
  case (Cons c s)
  then show ?case
    by (cases p) (auto simp: startswith_prefix sublist_Cons_right)
qed

lemma prepend_html_Str:
  "prepend_html mime (Str s) ab =
     Inr (Str (if sublist ''html'' mime
               then (case ab of None \<Rightarrow> [] | Some a \<Rightarrow> base_directive a) @ meta_directive @ s
               else s))"
  by (simp add: prepend_html_def contains_sublist split: option.splits)

lemma prepend_html_Bytes:
  "prepend_html mime (Bytes b) ab =
     (if sublist ''html'' mime then Inl TypeError else Inr (Bytes b))"
  by (simp add: prepend_html_def contains_sublist split: option.splits)

text \<open>The loop returns the first key that has the value, and the default when none has.\<close>

lemma suffix_loop_none: "m \<notin> snd ` set tbl \<Longrightarrow> suffix_loop tbl m d = d"
proof (induction tbl)
  case Nil
  then show ?case by simp
next
  case (Cons kv tbl)
  obtain k v where kv: "kv = (k, v)" by (cases kv)
  with Cons show ?case by auto
qed

lemma suffix_loop_unique:
  assumes "(mime, v) \<in> set tbl" and "\<forall>k. (k, v) \<in> set tbl \<longrightarrow> k = mime"
  shows "suffix_loop tbl v d = mime"
  using assms
proof (induction tbl)
  case Nil
  then show ?case by simp
next
  case (Cons kv tbl)
  obtain k' v' where kv: "kv = (k', v')" by (cases kv)
  show ?case
  proof (cases "v' = v")
    case True
    with kv have "(k', v) \<in> set (kv # tbl)" by simp
    with Cons.prems(2) have "k' = mime" by blast
    with True kv show ?thesis by simp
  next
    case False
    with Cons.prems(1) kv have mem: "(mime, v) \<in> set tbl" by simp
    from Cons.prems(2) have "\<forall>k. (k, v) \<in> set tbl \<longrightarrow> k = mime" by simp
    from Cons.IH[OF mem this] False kv show ?thesis by simp
  qed
qed

lemma suffix_loop_first:
  "m \<in> snd ` set tbl \<Longrightarrow>
     \<exists>i<length tbl. tbl ! i = (suffix_loop tbl m d, m) \<and> (\<forall>j<i. snd (tbl ! j) \<noteq> m)"
proof (induction tbl)
  case Nil
  then show ?case by simp
next
  case (Cons kv tbl)
  obtain k v where kv: "kv = (k, v)" by (cases kv)
  show ?case
  proof (cases "v = m")
    case True
    with kv show ?thesis by (intro exI[of _ 0]) simp
  next
    case False
    with Cons.prems kv have "m \<in> snd ` set tbl" by auto
    from Cons.IH[OF this] obtain i where i: "i < length tbl"
      "tbl ! i = (suffix_loop tbl m d, m)" "\<forall>j<i. snd (tbl ! j) \<noteq> m" by blast
    have "\<forall>j<Suc i. snd ((kv # tbl) ! j) \<noteq> m"
    proof (intro allI impI)
      fix j assume "j < Suc i"
      then show "snd ((kv # tbl) ! j) \<noteq> m"
        using i(3) False kv by (cases j) simp_all
    qed
    with i kv False show ?thesis by (intro exI[of _ "Suc i"]) simp
  qed
qed

text \<open>Unfolding one call, and evaluating the sample environments.\<close>

lemmas run_defs = render_to_img_def with_TemporaryDirectory_def render_body_def write_file_def
  command_ex_def log_def result_of_def events_of_def files_after_def

lemmas run_splits = sum.splits option.splits prod.splits if_splits

lemmas call_defs = browser_call_def convert_call_def moreargs_def chrome_path_def pjoin_def

lemmas sample_defs = sample_env_def broken_env_def missing_env_def stuck_env_def
  broken_stuck_env_def dir_prefix_def sample_spawn_def sample_table_def fs0_def
  prepend_html_def derive_suffix_def resolve_mime_def path_join_def meta_directive_def
  base_directive_def str_int_def str_nat.simps rmtree_def

section \<open>The runs of one call\<close>

text \<open>
  Writing the file and running a process, each seen from its caller: what is appended to
  the trace, what becomes of the files, and what is returned or raised.
\<close>

lemma write_file_cases:
  assumes "write_file E fn flags input w = (r, w1)"
  shows "(\<exists>e. r = Inl e \<and> trace w1 = trace w @ [Open fn flags] \<and> files w1 = files w) \<or>
         (r = Inr () \<and> trace w1 = trace w @ [Open fn flags, Write fn input] \<and>
          files w1 = (files w)(fn \<mapsto> File input))"
  using assms
  by (auto simp: write_file_def log_def Let_def split: option.splits)

lemma command_ex_cases:
  assumes "command_ex E pc w = (r, w1)"
  shows "trace w1 = trace w @ [Exec pc (fst (spawn E pc (files w)))] \<and>
         files w1 = snd (spawn E pc (files w)) \<and>
         (if failed (fst (spawn E pc (files w)))
          then r = Inl (raised (fst (spawn E pc (files w))))
          else \<exists>out err. fst (spawn E pc (files w)) = Inr (0, out, err) \<and> r = Inr (0, out, err))"
  using assms
  by (auto simp: command_ex_def log_def Let_def split: prod.splits sum.splits if_splits)

text \<open>
  The body of the \<^verbatim>\<open>with\<close> statement ends in one of four ways: the file cannot be
  written, the browser fails, the converter fails, or the converter succeeds.
\<close>

lemma render_body_cases [consumes 1, case_names open_failed browser_failed convert_failed converted]:
  assumes run: "render_body E sfx chrome input typ width height tdir w = (r, w')"
  obtains
    e where "r = Inl e"
      "trace w' = trace w @
         [Open (path_join tdir (''xxx.'' @ sfx)) (if isinstance_bytes input then ''wb'' else ''w'')]"
  | r1 where "failed r1" "r = Inl (raised r1)"
      "trace w' = trace w @
         [Open (path_join tdir (''xxx.'' @ sfx)) (if isinstance_bytes input then ''wb'' else ''w''),
          Write (path_join tdir (''xxx.'' @ sfx)) input,
          Exec (browser_call chrome width height (path_join tdir (''xxx.'' @ sfx)) tdir) r1]"
  | o1 e1 r2 where "failed r2" "r = Inl (raised r2)"
      "trace w' = trace w @
         [Open (path_join tdir (''xxx.'' @ sfx)) (if isinstance_bytes input then ''wb'' else ''w''),
          Write (path_join tdir (''xxx.'' @ sfx)) input,
          Exec (browser_call chrome width height (path_join tdir (''xxx.'' @ sfx)) tdir)
            (Inr (0, o1, e1)),
          Exec (convert_call tdir typ) r2]"
  | o1 e1 out err where "r = Inr out"
      "trace w' = trace w @
         [Open (path_join tdir (''xxx.'' @ sfx)) (if isinstance_bytes input then ''wb'' else ''w''),
          Write (path_join tdir (''xxx.'' @ sfx)) input,
          Exec (browser_call chrome width height (path_join tdir (''xxx.'' @ sfx)) tdir)
            (Inr (0, o1, e1)),
          Exec (convert_call tdir typ) (Inr (0, out, err))]"
proof -
  define fn where "fn = path_join tdir (''xxx.'' @ sfx)"
  define flags where "flags = (if isinstance_bytes input then ''wb'' else ''w'')"
  define bc where "bc = browser_call chrome width height fn tdir"
  define cc where "cc = convert_call tdir typ"
  note names = fn_def flags_def bc_def cc_def
  have body: "render_body E sfx chrome input typ width height tdir w =
      (case write_file E fn flags input w of
         (Inl e, w1) \<Rightarrow> (Inl e, w1)
       | (Inr u, w1) \<Rightarrow>
           (case command_ex E bc w1 of
              (Inl e, w2) \<Rightarrow> (Inl e, w2)
            | (Inr r1, w2) \<Rightarrow>
                (case command_ex E cc w2 of
                   (Inl e, w3) \<Rightarrow> (Inl e, w3)
                 | (Inr (code, out, err), w3) \<Rightarrow> (Inr out, w3))))"
    unfolding render_body_def Let_def names by (rule refl)
  obtain rw w1 where wf: "write_file E fn flags input w = (rw, w1)"
    by (cases "write_file E fn flags input w")
  from write_file_cases[OF wf] show thesis
  proof (elim disjE exE conjE)
    fix e assume "rw = Inl e" and tr: "trace w1 = trace w @ [Open fn flags]"
    with run body wf have "r = Inl e" "w' = w1" by simp_all
    with tr show thesis using that(1) by (simp add: names)
  next
    assume ok: "rw = Inr ()" and tr1: "trace w1 = trace w @ [Open fn flags, Write fn input]"
    obtain rb w2 where cb: "command_ex E bc w1 = (rb, w2)"
      by (cases "command_ex E bc w1")
    define r1 where "r1 = fst (spawn E bc (files w1))"
    from command_ex_cases[OF cb] have tr2: "trace w2 = trace w1 @ [Exec bc r1]"
      and res1: "if failed r1 then rb = Inl (raised r1)
                 else \<exists>out err. r1 = Inr (0, out, err) \<and> rb = Inr (0, out, err)"
      by (simp_all add: r1_def)
    show thesis
    proof (cases "failed r1")
      case True
      with res1 have "rb = Inl (raised r1)" by simp
      with run body wf ok cb have "r = Inl (raised r1)" "w' = w2" by simp_all
      with tr1 tr2 True show thesis using that(2) by (simp add: names)
    next
      case False
      with res1 obtain o1 e1 where r1: "r1 = Inr (0, o1, e1)" and rb: "rb = Inr (0, o1, e1)"
        by auto
      obtain rc w3 where cc: "command_ex E cc w2 = (rc, w3)"
        by (cases "command_ex E cc w2")
      define r2 where "r2 = fst (spawn E cc (files w2))"
      from command_ex_cases[OF cc] have tr3: "trace w3 = trace w2 @ [Exec cc r2]"
        and res2: "if failed r2 then rc = Inl (raised r2)
                   else \<exists>out err. r2 = Inr (0, out, err) \<and> rc = Inr (0, out, err)"
        by (simp_all add: r2_def)
      show thesis
      proof (cases "failed r2")
        case True
        with res2 have "rc = Inl (raised r2)" by simp
        with run body wf ok cb rb cc have "r = Inl (raised r2)" "w' = w3" by simp_all
        with tr1 tr2 tr3 r1 True show thesis using that(3) by (simp add: names)
      next
        case False
        with res2 obtain out err where r2: "r2 = Inr (0, out, err)" and rc: "rc = Inr (0, out, err)"
          by auto
        with run body wf ok cb rb cc have "r = Inr out" "w' = w3" by simp_all
        with tr1 tr2 tr3 r1 r2 show thesis using that(4) by (simp add: names)
      qed
    qed
  qed
qed

text \<open>
  The whole call ends in one of six ways: the two above the \<^verbatim>\<open>with\<close> statement (the
  concatenation raises, the directory cannot be created) and the four of its body, each
  followed by the attempt to remove the directory, whose outcome \<open>oc\<close> is the last event.
  When the removal fails, its error replaces the outcome of the body.
\<close>

lemma run_cases [case_names type_error no_tempdir open_failed browser_failed convert_failed converted]:
  obtains
    e where
      "prepend_html mime input ab = Inl e"
      "result_of E mime input typ width height ab fs = Inl e"
      "events_of E mime input typ width height ab fs = []"
      "files_after E mime input typ width height ab fs = fs"
  | input1 e where
      "prepend_html mime input ab = Inr input1"
      "mkdtemp E fs = Inl e"
      "result_of E mime input typ width height ab fs = Inl e"
      "events_of E mime input typ width height ab fs = []"
      "files_after E mime input typ width height ab fs = fs"
  | input1 tdir e oc fs' where
      "prepend_html mime input ab = Inr input1"
      "mkdtemp E fs = Inr tdir"
      "result_of E mime input typ width height ab fs =
         (case oc of None \<Rightarrow> Inl e | Some e' \<Rightarrow> Inl e')"
      "events_of E mime input typ width height ab fs =
         [MkDTemp tdir,
          Open (path_join tdir (''xxx.'' @ derive_suffix (mimetypes E) mime))
            (if isinstance_bytes input1 then ''wb'' else ''w''),
          Cleanup tdir oc]"
      "oc = None \<longrightarrow> files_after E mime input typ width height ab fs = rmtree tdir fs'"
  | input1 tdir r1 oc fs' where
      "prepend_html mime input ab = Inr input1"
      "mkdtemp E fs = Inr tdir"
      "failed r1"
      "result_of E mime input typ width height ab fs =
         (case oc of None \<Rightarrow> Inl (raised r1) | Some e' \<Rightarrow> Inl e')"
      "events_of E mime input typ width height ab fs =
         [MkDTemp tdir,
          Open (path_join tdir (''xxx.'' @ derive_suffix (mimetypes E) mime))
            (if isinstance_bytes input1 then ''wb'' else ''w''),
          Write (path_join tdir (''xxx.'' @ derive_suffix (mimetypes E) mime)) input1,
          Exec (browser_call (chrome_path (platform E)) width height
                  (path_join tdir (''xxx.'' @ derive_suffix (mimetypes E) mime)) tdir) r1,
          Cleanup tdir oc]"
      "oc = None \<longrightarrow> files_after E mime input typ width height ab fs = rmtree tdir fs'"
  | input1 tdir o1 e1 r2 oc fs' where
      "prepend_html mime input ab = Inr input1"
      "mkdtemp E fs = Inr tdir"
      "failed r2"
      "result_of E mime input typ width height ab fs =
         (case oc of None \<Rightarrow> Inl (raised r2) | Some e' \<Rightarrow> Inl e')"
      "events_of E mime input typ width height ab fs =
         [MkDTemp tdir,
          Open (path_join tdir (''xxx.'' @ derive_suffix (mimetypes E) mime))
            (if isinstance_bytes input1 then ''wb'' else ''w''),
          Write (path_join tdir (''xxx.'' @ derive_suffix (mimetypes E) mime)) input1,
          Exec (browser_call (chrome_path (platform E)) width height
                  (path_join tdir (''xxx.'' @ derive_suffix (mimetypes E) mime)) tdir)
            (Inr (0, o1, e1)),
          Exec (convert_call tdir typ) r2,
          Cleanup tdir oc]"
      "oc = None \<longrightarrow> files_after E mime input typ width height ab fs = rmtree tdir fs'"
  | input1 tdir o1 e1 out err oc fs' where
      "prepend_html mime input ab = Inr input1"
      "mkdtemp E fs = Inr tdir"
      "result_of E mime input typ width height ab fs =
         (case oc of None \<Rightarrow> Inr out | Some e' \<Rightarrow> Inl e')"
      "events_of E mime input typ width height ab fs =
         [MkDTemp tdir,
          Open (path_join tdir (''xxx.'' @ derive_suffix (mimetypes E) mime))
            (if isinstance_bytes input1 then ''wb'' else ''w''),
          Write (path_join tdir (''xxx.'' @ derive_suffix (mimetypes E) mime)) input1,
          Exec (browser_call (chrome_path (platform E)) width height
                  (path_join tdir (''xxx.'' @ derive_suffix (mimetypes E) mime)) tdir)
            (Inr (0, o1, e1)),
          Exec (convert_call tdir typ) (Inr (0, out, err)),
          Cleanup tdir oc]"
      "oc = None \<longrightarrow> files_after E mime input typ width height ab fs = rmtree tdir fs'"
proof -
  define w0 where "w0 = \<lparr>files = fs, trace = []\<rparr>"
  define sfx where "sfx = derive_suffix (mimetypes E) mime"
  define chrome where "chrome = chrome_path (platform E)"
  note obs = result_of_def events_of_def files_after_def
  show thesis
  proof (cases "prepend_html mime input ab")
    case (Inl e)
    then have "render_to_img E mime input typ width height ab w0 = (Inl e, w0)"
      by (simp add: render_to_img_def)
    with Inl show thesis using that(1) by (simp add: obs w0_def)
  next
    case (Inr input1)
    then have run: "render_to_img E mime input typ width height ab w0 =
        with_TemporaryDirectory E (render_body E sfx chrome input1 typ width height) w0"
      by (simp add: render_to_img_def Let_def sfx_def chrome_def)
    show thesis
    proof (cases "mkdtemp E fs")
      case (Inl e)
      with run have "render_to_img E mime input typ width height ab w0 = (Inl e, w0)"
        by (simp add: with_TemporaryDirectory_def w0_def)
      with Inl Inr show thesis using that(2) by (simp add: obs w0_def)
    next
      case tmp: (Inr tdir)
      define w1 where "w1 = log (MkDTemp tdir) (w0\<lparr>files := (files w0)(tdir \<mapsto> Dir)\<rparr>)"
      obtain r w2 where body: "render_body E sfx chrome input1 typ width height tdir w1 = (r, w2)"
        by (cases "render_body E sfx chrome input1 typ width height tdir w1")
      have tr1: "trace w1 = [MkDTemp tdir]"
        by (simp add: w1_def w0_def log_def)
      define oc where "oc = map_option fst (rmtree_fail E tdir (files w2))"
      from run tmp body
      have res: "render_to_img E mime input typ width height ab w0 =
          (case rmtree_fail E tdir (files w2) of
             None \<Rightarrow> (r, log (Cleanup tdir None) (w2\<lparr>files := rmtree tdir (files w2)\<rparr>))
           | Some (e, fs') \<Rightarrow> (Inl e, log (Cleanup tdir (Some e)) (w2\<lparr>files := fs'\<rparr>)))"
        by (simp add: with_TemporaryDirectory_def w0_def w1_def)
      have r: "result_of E mime input typ width height ab fs =
          (case oc of None \<Rightarrow> r | Some e' \<Rightarrow> Inl e')"
        and ev: "events_of E mime input typ width height ab fs = trace w2 @ [Cleanup tdir oc]"
        and fa: "oc = None \<longrightarrow>
          files_after E mime input typ width height ab fs = rmtree tdir (files w2)"
        using res
        by (auto simp: obs w0_def log_def oc_def split: option.splits)
      from body show thesis
      proof (cases rule: render_body_cases)
        case (open_failed e)
        with r ev fa tr1 Inr tmp show thesis
          using that(3)[where ?input1.0 = input1 and tdir = tdir and e = e and oc = oc
              and fs' = "files w2"]
          by (simp add: sfx_def chrome_def cong: option.case_cong)
      next
        case (browser_failed r1)
        with r ev fa tr1 Inr tmp show thesis
          using that(4)[where ?input1.0 = input1 and tdir = tdir and ?r1.0 = r1 and oc = oc
              and fs' = "files w2"]
          by (simp add: sfx_def chrome_def cong: option.case_cong)
      next
        case (convert_failed o1 e1 r2)
        with r ev fa tr1 Inr tmp show thesis
          using that(5)[where ?input1.0 = input1 and tdir = tdir and ?r2.0 = r2 and oc = oc
              and ?o1.0 = o1 and ?e1.0 = e1 and fs' = "files w2"]
          by (simp add: sfx_def chrome_def cong: option.case_cong)
      next
        case (converted o1 e1 out err)
        with r ev fa tr1 Inr tmp show thesis
          using that(6)[where ?input1.0 = input1 and tdir = tdir and out = out and err = err
              and oc = oc and ?o1.0 = o1 and ?e1.0 = e1 and fs' = "files w2"]
          by (simp add: sfx_def chrome_def cong: option.case_cong)
      qed
    qed
  qed
qed

lemma path_join_last: "b \<noteq> [] \<Longrightarrow> last (path_join a b) = last b"
  by (simp add: path_join_def)

lemma chrome_not_convert: "chrome_path p \<noteq> ''convert''"
  by (simp add: chrome_path_def)

text \<open>Which process an event of the trace belongs to, and what the call returns with it.\<close>

lemma cmd_browser_call: "cmd (browser_call c w h f t) = c"
  by (simp add: browser_call_def)

lemma cmd_convert_call: "cmd (convert_call t ty) = ''convert''"
  by (simp add: convert_call_def)

lemma convert_events:
  assumes "Exec pc r \<in> set (events_of E mime input typ width height ab fs)"
    and "cmd pc = ''convert''"
  shows "\<exists>tdir oc. MkDTemp tdir \<in> set (events_of E mime input typ width height ab fs) \<and>
           Cleanup tdir oc \<in> set (events_of E mime input typ width height ab fs) \<and>
           pc = convert_call tdir typ \<and>
           result_of E mime input typ width height ab fs =
             (case oc of
                Some e \<Rightarrow> Inl e
              | None \<Rightarrow> (case r of
                          Inl e \<Rightarrow> Inl e
                        | Inr (code, out, err) \<Rightarrow>
                            if code \<noteq> 0 then Inl (CalledProcessError code out err)
                            else Inr out))"
proof (cases rule: run_cases[of mime input ab E "typ" width height fs])
  case (type_error e)
  with assms show ?thesis by simp
next
  case (no_tempdir input1 e)
  with assms show ?thesis by simp
next
  case (open_failed input1 tdir e oc fs')
  with assms show ?thesis by simp
next
  case (browser_failed input1 tdir r1 oc fs')
  with assms chrome_not_convert[of "platform E"] show ?thesis
    by (auto simp: cmd_browser_call)
next
  case (convert_failed input1 tdir o1 e1 r2 oc fs')
  have "raised r2 = (case r2 of Inl e \<Rightarrow> e
      | Inr (code, out, err) \<Rightarrow> CalledProcessError code out err)"
    by (cases r2) auto
  with convert_failed assms chrome_not_convert[of "platform E"] show ?thesis
    by (auto simp: cmd_browser_call split: option.splits sum.splits)
next
  case (converted input1 tdir o1 e1 out err oc fs')
  with assms chrome_not_convert[of "platform E"] show ?thesis
    by (auto simp: cmd_browser_call split: option.splits)
qed

lemma result_events:
  assumes "result_of E mime input typ width height ab fs = Inr out"
  shows "\<exists>tdir err. Exec (convert_call tdir typ) (Inr (0, out, err))
             \<in> set (events_of E mime input typ width height ab fs) \<and>
           Cleanup tdir None \<in> set (events_of E mime input typ width height ab fs)"
  using assms
  by (cases rule: run_cases[of mime input ab E "typ" width height fs])
     (auto split: option.splits)

text \<open>One call attempts one removal, of the directory it created.\<close>

lemma cleanup_unique:
  assumes "Cleanup t1 oc1 \<in> set (events_of E mime input typ width height ab fs)"
    and "Cleanup t2 oc2 \<in> set (events_of E mime input typ width height ab fs)"
  shows "t1 = t2 \<and> oc1 = oc2"
  using assms
  by (cases rule: run_cases[of mime input ab E "typ" width height fs]) auto

text \<open>A removal that succeeds leaves nothing at the directory, below it, or at a path joined to it.\<close>

lemma rmtree_self: "rmtree d fs d = None"
  by (simp add: rmtree_def)

lemma rmtree_below: "prefix (dir_prefix d) p \<Longrightarrow> rmtree d fs p = None"
  by (simp add: rmtree_def startswith_prefix)

lemma path_join_dir_prefix: "\<not> startswith b ''/'' \<Longrightarrow> path_join a b = dir_prefix a @ b"
  by (simp add: path_join_def dir_prefix_def)

lemma rmtree_path_join: "\<not> startswith b ''/'' \<Longrightarrow> rmtree d fs (path_join d b) = None"
  by (simp add: path_join_dir_prefix rmtree_below)

text \<open>A \<^verbatim>\<open>bytes\<close> object passes lines 25 to 30 only unchanged, under a mime without \<^verbatim>\<open>html\<close>.\<close>

lemma prepend_html_bytes_result:
  assumes "prepend_html mime input ab = Inr input1" and "isinstance_bytes input1"
  shows "(\<exists>b. input = Bytes b) \<and> \<not> sublist ''html'' mime"
  using assms
  by (cases input) (auto simp: prepend_html_Str prepend_html_Bytes split: if_splits)

section \<open>The claims\<close>

subsection \<open>C1: the content written for an HTML mime\<close>

text \<open>
  C1, as amended. For a text input and a mime that contains \<^verbatim>\<open>html\<close>, the content written
  to the temporary input file is the meta directive followed by the input when no
  \<^verbatim>\<open>asset_base\<close> is given; when \<^verbatim>\<open>asset_base\<close> is given, it is the base-href directive
  naming \<^verbatim>\<open>asset_base\<close> as a file-scheme URL, then the meta directive, then the input. So
  the base-href directive stands before the meta directive, and with it the content
  begins with the base-href directive, not with the meta directive.
\<close>

theorem written_html_content:
  assumes "sublist ''html'' mime"
    and "Write fn c \<in> set (events_of E mime (Str s) typ width height asset_base fs)"
  shows \<open>(asset_base = None \<longrightarrow>
            c = Str (''<meta http-equiv="Content-Type" content="text/html; charset=utf-8"/>'' @ s)) \<and>
         (\<forall>ab. asset_base = Some ab \<longrightarrow>
            c = Str (''<base href="file://'' @ ab @ ''/">'' @
                     ''<meta http-equiv="Content-Type" content="text/html; charset=utf-8"/>'' @ s))\<close>
proof -
  have pre: "prepend_html mime (Str s) asset_base =
      Inr (Str ((case asset_base of None \<Rightarrow> [] | Some a \<Rightarrow> base_directive a) @ meta_directive @ s))"
    using assms(1) by (simp add: prepend_html_Str)
  have "c = Str ((case asset_base of None \<Rightarrow> [] | Some a \<Rightarrow> base_directive a) @ meta_directive @ s)"
    using assms(2) pre
    by (cases rule: run_cases[of mime "Str s" asset_base E "typ" width height fs]) auto
  then show ?thesis
    by (simp add: meta_directive_def base_directive_def)
qed

text \<open>
  The theorem at \<^verbatim>\<open>render_to_img('html', '<p>hi</p>', 'png', asset_base='/srv/assets')\<close>.
\<close>

theorem written_html_content_witness:
  \<open>sublist ''html'' ''html'' \<and>
   Write ''/tmp/tmpk3/xxx.html''
     (Str ''<base href="file:///srv/assets/"><meta http-equiv="Content-Type" content="text/html; charset=utf-8"/><p>hi</p>'')
     \<in> set (events_of sample_env ''html'' (Str ''<p>hi</p>'') ''png'' 1000 2000 (Some ''/srv/assets'') fs0) \<and>
   Str ''<base href="file:///srv/assets/"><meta http-equiv="Content-Type" content="text/html; charset=utf-8"/><p>hi</p>'' =
   Str (''<base href="file://'' @ ''/srv/assets'' @ ''/">'' @
        ''<meta http-equiv="Content-Type" content="text/html; charset=utf-8"/>'' @ ''<p>hi</p>'')\<close>
proof -
  have h1: "sublist ''html'' ''html''" by simp
  have h2: \<open>Write ''/tmp/tmpk3/xxx.html''
     (Str ''<base href="file:///srv/assets/"><meta http-equiv="Content-Type" content="text/html; charset=utf-8"/><p>hi</p>'')
     \<in> set (events_of sample_env ''html'' (Str ''<p>hi</p>'') ''png'' 1000 2000 (Some ''/srv/assets'') fs0)\<close>
    by (simp add: run_defs sample_defs call_defs Let_def)
  from written_html_content[OF h1 h2] h1 h2 show ?thesis by simp
qed

text \<open>
  The claim as stated asks for both: that the content begins with the meta directive, and
  that the base-href directive stands before it. In the same call the one content written
  does not begin with the meta directive.
\<close>

theorem written_html_counterexample:
  \<open>written (events_of sample_env ''html'' (Str ''<p>hi</p>'') ''png'' 1000 2000 (Some ''/srv/assets'') fs0) =
     [Str ''<base href="file:///srv/assets/"><meta http-equiv="Content-Type" content="text/html; charset=utf-8"/><p>hi</p>''] \<and>
   \<not> prefix ''<meta http-equiv="Content-Type" content="text/html; charset=utf-8"/>''
     ''<base href="file:///srv/assets/"><meta http-equiv="Content-Type" content="text/html; charset=utf-8"/><p>hi</p>''\<close>
  by (simp add: run_defs sample_defs call_defs Let_def)

subsection \<open>C2: the suffix of the temporary file\<close>

text \<open>
  C2, as amended. The alias table is a parameter. When \<^verbatim>\<open>mime\<close> is an alias with a non-empty
  MIME string, the suffix is the first alias, in the order of the table, that has this MIME
  string; it is \<^verbatim>\<open>mime\<close> itself when no other alias has it. When \<^verbatim>\<open>mime\<close> is not an alias
  and is the MIME string of some alias, the suffix is the first alias that has it. When
  \<^verbatim>\<open>mime\<close> is neither, the suffix is \<^verbatim>\<open>mime\<close>.
\<close>

theorem derived_suffix:
  "(\<forall>v. map_of tbl mime = Some v \<and> v \<noteq> [] \<longrightarrow>
      (\<exists>i<length tbl. tbl ! i = (derive_suffix tbl mime, v) \<and> (\<forall>j<i. snd (tbl ! j) \<noteq> v)) \<and>
      ((\<forall>k. (k, v) \<in> set tbl \<longrightarrow> k = mime) \<longrightarrow> derive_suffix tbl mime = mime)) \<and>
   (map_of tbl mime = None \<and> mime \<in> snd ` set tbl \<longrightarrow>
      (\<exists>i<length tbl. tbl ! i = (derive_suffix tbl mime, mime) \<and>
         (\<forall>j<i. snd (tbl ! j) \<noteq> mime))) \<and>
   (map_of tbl mime = None \<and> mime \<notin> snd ` set tbl \<longrightarrow> derive_suffix tbl mime = mime)"
proof (intro conjI allI impI)
  fix v assume a: "map_of tbl mime = Some v \<and> v \<noteq> []"
  then have m: "resolve_mime tbl mime = v" by (simp add: resolve_mime_def)
  from a have mem: "(mime, v) \<in> set tbl" by (auto dest: map_of_SomeD)
  then have "v \<in> snd ` set tbl" by force
  from suffix_loop_first[OF this, of mime] m
  show "\<exists>i<length tbl. tbl ! i = (derive_suffix tbl mime, v) \<and> (\<forall>j<i. snd (tbl ! j) \<noteq> v)"
    by (simp add: derive_suffix_def)
  assume "\<forall>k. (k, v) \<in> set tbl \<longrightarrow> k = mime"
  from suffix_loop_unique[OF mem this] m show "derive_suffix tbl mime = mime"
    by (simp add: derive_suffix_def)
next
  assume a: "map_of tbl mime = None \<and> mime \<in> snd ` set tbl"
  then have m: "resolve_mime tbl mime = mime" by (simp add: resolve_mime_def)
  from a suffix_loop_first[of mime tbl mime] m
  show "\<exists>i<length tbl. tbl ! i = (derive_suffix tbl mime, mime) \<and> (\<forall>j<i. snd (tbl ! j) \<noteq> mime)"
    by (simp add: derive_suffix_def)
next
  assume a: "map_of tbl mime = None \<and> mime \<notin> snd ` set tbl"
  then have m: "resolve_mime tbl mime = mime" by (simp add: resolve_mime_def)
  from a suffix_loop_none[of mime tbl mime] m show "derive_suffix tbl mime = mime"
    by (simp add: derive_suffix_def)
qed

text \<open>
  The three cases in the sample table: the alias \<^verbatim>\<open>html\<close>, the MIME string
  \<^verbatim>\<open>image/svg+xml\<close>, and \<^verbatim>\<open>text/plain\<close>, which the table does not know.
\<close>

theorem derived_suffix_witness:
  "map_of sample_table ''html'' = Some ''text/html'' \<and>
   derive_suffix sample_table ''html'' = ''html'' \<and>
   map_of sample_table ''image/svg+xml'' = None \<and>
   ''image/svg+xml'' \<in> snd ` set sample_table \<and>
   sample_table ! 3 = (derive_suffix sample_table ''image/svg+xml'', ''image/svg+xml'') \<and>
   map_of sample_table ''text/plain'' = None \<and>
   ''text/plain'' \<notin> snd ` set sample_table \<and>
   derive_suffix sample_table ''text/plain'' = ''text/plain''"
proof -
  have a1: "map_of sample_table ''html'' = Some ''text/html'' \<and> ''text/html'' \<noteq> []"
    by (simp add: sample_table_def)
  have a2: "\<forall>k. (k, ''text/html'') \<in> set sample_table \<longrightarrow> k = ''html''"
    by (simp add: sample_table_def)
  have b: "map_of sample_table ''image/svg+xml'' = None \<and> ''image/svg+xml'' \<in> snd ` set sample_table"
    by (simp add: sample_table_def)
  have c: "map_of sample_table ''text/plain'' = None \<and> ''text/plain'' \<notin> snd ` set sample_table"
    by (simp add: sample_table_def)
  have s: "sample_table ! 3 = (derive_suffix sample_table ''image/svg+xml'', ''image/svg+xml'')"
    by (simp add: sample_table_def derive_suffix_def resolve_mime_def)
  from derived_suffix[of sample_table "''html''"] a1 a2
  have r1: "derive_suffix sample_table ''html'' = ''html''" by blast
  from derived_suffix[of sample_table "''text/plain''"] c
  have r3: "derive_suffix sample_table ''text/plain'' = ''text/plain''" by blast
  from a1 b c s r1 r3 show ?thesis by simp
qed

text \<open>
  The claim as stated gives a known alias itself as the suffix. In a table where \<^verbatim>\<open>jpg\<close>
  and \<^verbatim>\<open>jpeg\<close> both stand for \<^verbatim>\<open>image/jpeg\<close>, in this order, the alias \<^verbatim>\<open>jpeg\<close> gets the
  suffix \<^verbatim>\<open>jpg\<close>, and the file opened is \<^verbatim>\<open>xxx.jpg\<close>.
\<close>

theorem derived_suffix_counterexample:
  "map_of sample_table ''jpeg'' = Some ''image/jpeg'' \<and>
   derive_suffix sample_table ''jpeg'' = ''jpg'' \<and>
   derive_suffix sample_table ''jpeg'' \<noteq> ''jpeg'' \<and>
   Open ''/tmp/tmpk3/xxx.jpg'' ''wb''
     \<in> set (events_of sample_env ''jpeg'' (Bytes [0xFF, 0xD8]) ''png'' 1000 2000 None fs0)"
  by (simp add: run_defs sample_defs call_defs Let_def)

subsection \<open>C3: the flatten arguments of the converter\<close>

text \<open>
  C3. Whenever the converter is run, its argument list contains the run
  \<^verbatim>\<open>-background white -flatten -alpha off\<close> if and only if \<^verbatim>\<open>typ\<close> is not \<^verbatim>\<open>png\<close>; for
  \<^verbatim>\<open>png\<close> none of the five arguments occurs in the list.
\<close>

theorem convert_flatten_args:
  assumes "Exec pc r \<in> set (events_of E mime input typ width height ab fs)"
    and "cmd pc = ''convert''"
  shows "(sublist [''-background'', ''white'', ''-flatten'', ''-alpha'', ''off''] (args pc)
            \<longleftrightarrow> typ \<noteq> ''png'') \<and>
         (typ = ''png'' \<longrightarrow>
            set (args pc) \<inter> {''-background'', ''white'', ''-flatten'', ''-alpha'', ''off''} = {})"
proof -
  have "\<exists>tdir. pc = convert_call tdir typ"
    using assms chrome_not_convert[of "platform E"]
    by (cases rule: run_cases[of mime input ab E "typ" width height fs])
       (auto simp: browser_call_def)
  then obtain tdir where pc: "pc = convert_call tdir typ" ..
  define p where "p = pjoin tdir ''screenshot.png''"
  have "last p = CHR ''g''"
    by (simp add: p_def pjoin_def path_join_last)
  then have p: "p \<notin> {''-background'', ''white'', ''-flatten'', ''-alpha'', ''off''}"
    by auto
  show ?thesis
  proof (cases "typ = ''png''")
    case True
    with pc have a: "args pc = [p, ''-trim'', ''+repage'', ''png:-'']"
      by (simp add: convert_call_def moreargs_def p_def)
    have "\<not> sublist [''-background'', ''white'', ''-flatten'', ''-alpha'', ''off''] (args pc)"
    proof
      assume "sublist [''-background'', ''white'', ''-flatten'', ''-alpha'', ''off''] (args pc)"
      then have "length [''-background'', ''white'', ''-flatten'', ''-alpha'', ''off'']
                   \<le> length (args pc)"
        by (rule sublist_length_le)
      with a show False by simp
    qed
    moreover from a p
    have "set (args pc) \<inter> {''-background'', ''white'', ''-flatten'', ''-alpha'', ''off''} = {}"
      by auto
    ultimately show ?thesis using True by simp
  next
    case False
    with pc have "args pc = [p, ''-trim'', ''+repage'']
        @ [''-background'', ''white'', ''-flatten'', ''-alpha'', ''off''] @ [typ @ '':-'']"
      by (simp add: convert_call_def moreargs_def p_def)
    then have "sublist [''-background'', ''white'', ''-flatten'', ''-alpha'', ''off''] (args pc)"
      by (simp only: sublist_appendI)
    with False show ?thesis by simp
  qed
qed

text \<open>
  The theorem at the output types \<^verbatim>\<open>jpg\<close> and \<^verbatim>\<open>png\<close>, on the sample system.
\<close>

theorem convert_flatten_args_witness:
  "Exec \<lparr>cmd = ''convert'',
         args = [''/tmp/tmpk3/screenshot.png'', ''-trim'', ''+repage'',
                 ''-background'', ''white'', ''-flatten'', ''-alpha'', ''off'', ''jpg:-''],
         cwd = None, text_opt = Some False\<rparr>
      (Inr (0, Bytes [0x89, 0x50, 0x4E, 0x47], Bytes []))
     \<in> set (events_of sample_env ''svg'' (Str ''<svg/>'') ''jpg'' 1000 2000 None fs0) \<and>
   sublist [''-background'', ''white'', ''-flatten'', ''-alpha'', ''off'']
     [''/tmp/tmpk3/screenshot.png'', ''-trim'', ''+repage'',
      ''-background'', ''white'', ''-flatten'', ''-alpha'', ''off'', ''jpg:-''] \<and>
   Exec \<lparr>cmd = ''convert'',
         args = [''/tmp/tmpk3/screenshot.png'', ''-trim'', ''+repage'', ''png:-''],
         cwd = None, text_opt = Some False\<rparr>
      (Inr (0, Bytes [0x89, 0x50, 0x4E, 0x47], Bytes []))
     \<in> set (events_of sample_env ''svg'' (Str ''<svg/>'') ''png'' 1000 2000 None fs0) \<and>
   \<not> sublist [''-background'', ''white'', ''-flatten'', ''-alpha'', ''off'']
     [''/tmp/tmpk3/screenshot.png'', ''-trim'', ''+repage'', ''png:-'']"
proof -
  have h1: "Exec \<lparr>cmd = ''convert'',
         args = [''/tmp/tmpk3/screenshot.png'', ''-trim'', ''+repage'',
                 ''-background'', ''white'', ''-flatten'', ''-alpha'', ''off'', ''jpg:-''],
         cwd = None, text_opt = Some False\<rparr>
      (Inr (0, Bytes [0x89, 0x50, 0x4E, 0x47], Bytes []))
     \<in> set (events_of sample_env ''svg'' (Str ''<svg/>'') ''jpg'' 1000 2000 None fs0)"
    by (simp add: run_defs sample_defs call_defs Let_def)
  have h2: "Exec \<lparr>cmd = ''convert'',
         args = [''/tmp/tmpk3/screenshot.png'', ''-trim'', ''+repage'', ''png:-''],
         cwd = None, text_opt = Some False\<rparr>
      (Inr (0, Bytes [0x89, 0x50, 0x4E, 0x47], Bytes []))
     \<in> set (events_of sample_env ''svg'' (Str ''<svg/>'') ''png'' 1000 2000 None fs0)"
    by (simp add: run_defs sample_defs call_defs Let_def)
  from convert_flatten_args[OF h1] convert_flatten_args[OF h2] h1 h2
  show ?thesis by simp
qed

subsection \<open>C4: the removal of the temporary directory\<close>

text \<open>
  C4, as amended. Whenever the call has created its temporary directory, then whatever
  the body of the \<^verbatim>\<open>with\<close> statement returned or raised, the removal of that directory is
  attempted, and it is the last effect of the call. When the removal succeeds, then after
  the call neither the directory nor any path below it exists, in particular not the
  file written and not the screenshot. When the removal fails, its error is what the call
  raises.
\<close>

theorem tempdir_removal:
  assumes "MkDTemp tdir \<in> set (events_of E mime input typ width height ab fs)"
  shows "(\<exists>oc. last (events_of E mime input typ width height ab fs) = Cleanup tdir oc \<and>
               Cleanup tdir oc \<in> set (events_of E mime input typ width height ab fs)) \<and>
         (Cleanup tdir None \<in> set (events_of E mime input typ width height ab fs) \<longrightarrow>
            files_after E mime input typ width height ab fs tdir = None \<and>
            (\<forall>p. prefix (dir_prefix tdir) p \<longrightarrow>
               files_after E mime input typ width height ab fs p = None) \<and>
            (\<forall>fn c. Write fn c \<in> set (events_of E mime input typ width height ab fs) \<longrightarrow>
               files_after E mime input typ width height ab fs fn = None) \<and>
            files_after E mime input typ width height ab fs (pjoin tdir ''screenshot.png'') = None) \<and>
         (\<forall>e. Cleanup tdir (Some e) \<in> set (events_of E mime input typ width height ab fs) \<longrightarrow>
            result_of E mime input typ width height ab fs = Inl e)"
proof -
  have x: "\<not> startswith (CHR ''x'' # rest) ''/''" for rest by simp
  have s: "\<not> startswith ''screenshot.png'' ''/''" by simp
  note gone = rmtree_self rmtree_below rmtree_path_join[OF x] rmtree_path_join[OF s] pjoin_def
  show ?thesis
  proof (cases rule: run_cases[of mime input ab E "typ" width height fs])
    case (type_error e)
    with assms show ?thesis by simp
  next
    case (no_tempdir input1 e)
    with assms show ?thesis by simp
  next
    case (open_failed input1 tdir' e oc fs')
    with assms show ?thesis by (auto simp: gone)
  next
    case (browser_failed input1 tdir' r1 oc fs')
    with assms show ?thesis by (auto simp: gone)
  next
    case (convert_failed input1 tdir' o1 e1 r2 oc fs')
    with assms show ?thesis by (auto simp: gone)
  next
    case (converted input1 tdir' o1 e1 out err oc fs')
    with assms show ?thesis by (auto simp: gone)
  qed
qed

text \<open>
  The theorem on the system whose browser exits with code 1, where the call raises, and
  on the sample system, where it returns the image: in both the removal succeeds.
\<close>

theorem tempdir_removal_witness:
  "MkDTemp ''/tmp/tmpk3''
     \<in> set (events_of broken_env ''html'' (Str ''<p>hi</p>'') ''png'' 1000 2000 None fs0) \<and>
   Cleanup ''/tmp/tmpk3'' None
     \<in> set (events_of broken_env ''html'' (Str ''<p>hi</p>'') ''png'' 1000 2000 None fs0) \<and>
   result_of broken_env ''html'' (Str ''<p>hi</p>'') ''png'' 1000 2000 None fs0
     = Inl (CalledProcessError 1 (Str []) (Str ''no display'')) \<and>
   files_after broken_env ''html'' (Str ''<p>hi</p>'') ''png'' 1000 2000 None fs0 ''/tmp/tmpk3''
     = None \<and>
   files_after broken_env ''html'' (Str ''<p>hi</p>'') ''png'' 1000 2000 None fs0
     ''/tmp/tmpk3/xxx.html'' = None \<and>
   MkDTemp ''/tmp/tmpk3''
     \<in> set (events_of sample_env ''html'' (Str ''<p>hi</p>'') ''png'' 1000 2000 None fs0) \<and>
   Cleanup ''/tmp/tmpk3'' None
     \<in> set (events_of sample_env ''html'' (Str ''<p>hi</p>'') ''png'' 1000 2000 None fs0) \<and>
   result_of sample_env ''html'' (Str ''<p>hi</p>'') ''png'' 1000 2000 None fs0
     = Inr (Bytes [0x89, 0x50, 0x4E, 0x47]) \<and>
   files_after sample_env ''html'' (Str ''<p>hi</p>'') ''png'' 1000 2000 None fs0
     ''/tmp/tmpk3/screenshot.png'' = None"
proof -
  have h1: "MkDTemp ''/tmp/tmpk3''
     \<in> set (events_of broken_env ''html'' (Str ''<p>hi</p>'') ''png'' 1000 2000 None fs0)"
    by (simp add: run_defs sample_defs call_defs Let_def)
  have k1: "Cleanup ''/tmp/tmpk3'' None
     \<in> set (events_of broken_env ''html'' (Str ''<p>hi</p>'') ''png'' 1000 2000 None fs0)"
    by (simp add: run_defs sample_defs call_defs Let_def)
  have h2: "MkDTemp ''/tmp/tmpk3''
     \<in> set (events_of sample_env ''html'' (Str ''<p>hi</p>'') ''png'' 1000 2000 None fs0)"
    by (simp add: run_defs sample_defs call_defs Let_def)
  have k2: "Cleanup ''/tmp/tmpk3'' None
     \<in> set (events_of sample_env ''html'' (Str ''<p>hi</p>'') ''png'' 1000 2000 None fs0)"
    by (simp add: run_defs sample_defs call_defs Let_def)
  have r1: "result_of broken_env ''html'' (Str ''<p>hi</p>'') ''png'' 1000 2000 None fs0
     = Inl (CalledProcessError 1 (Str []) (Str ''no display''))"
    by (simp add: run_defs sample_defs call_defs Let_def)
  have r2: "result_of sample_env ''html'' (Str ''<p>hi</p>'') ''png'' 1000 2000 None fs0
     = Inr (Bytes [0x89, 0x50, 0x4E, 0x47])"
    by (simp add: run_defs sample_defs call_defs Let_def)
  have p1: "prefix (dir_prefix ''/tmp/tmpk3'') ''/tmp/tmpk3/xxx.html''"
    by (simp add: dir_prefix_def)
  have p2: "pjoin ''/tmp/tmpk3'' ''screenshot.png'' = ''/tmp/tmpk3/screenshot.png''"
    by (simp add: pjoin_def path_join_def)
  from tempdir_removal[OF h1] k1 p1
  have a: "files_after broken_env ''html'' (Str ''<p>hi</p>'') ''png'' 1000 2000 None fs0
      ''/tmp/tmpk3'' = None"
    "files_after broken_env ''html'' (Str ''<p>hi</p>'') ''png'' 1000 2000 None fs0
      ''/tmp/tmpk3/xxx.html'' = None"
    by blast+
  from tempdir_removal[OF h2] k2 p2
  have b: "files_after sample_env ''html'' (Str ''<p>hi</p>'') ''png'' 1000 2000 None fs0
      ''/tmp/tmpk3/screenshot.png'' = None"
    by metis
  from h1 k1 r1 a h2 k2 r2 b show ?thesis by simp
qed

text \<open>
  The claim as stated has the directory gone on every exit path. On the sample system
  where the removal raises, the call has created the directory, both tools have
  succeeded, and after the call the directory and the file written are still there; the
  call raises the error of the removal.
\<close>

theorem tempdir_removed_counterexample:
  "MkDTemp ''/tmp/tmpk3''
     \<in> set (events_of stuck_env ''html'' (Str ''<p>hi</p>'') ''png'' 1000 2000 None fs0) \<and>
   files_after stuck_env ''html'' (Str ''<p>hi</p>'') ''png'' 1000 2000 None fs0 ''/tmp/tmpk3''
     = Some Dir \<and>
   files_after stuck_env ''html'' (Str ''<p>hi</p>'') ''png'' 1000 2000 None fs0
     ''/tmp/tmpk3/xxx.html'' \<noteq> None \<and>
   result_of stuck_env ''html'' (Str ''<p>hi</p>'') ''png'' 1000 2000 None fs0
     = Inl (OSError ''Operation not permitted'')"
  by (simp add: run_defs sample_defs call_defs Let_def)

subsection \<open>C5: the invocation of the browser\<close>

text \<open>
  C5. Whenever the call starts a process, the first one is started with exactly the
  arguments \<^verbatim>\<open>--headless --disable-gpu --no-sandbox --screenshot
  --window-size=<width>,<height> --default-background-color=00000000\<close> followed by the path
  of the file written, and its working directory is the temporary directory.
\<close>

theorem browser_invocation:
  assumes "execs (events_of E mime input typ width height ab fs) \<noteq> []"
  shows "\<exists>tdir fn c.
           MkDTemp tdir \<in> set (events_of E mime input typ width height ab fs) \<and>
           Write fn c \<in> set (events_of E mime input typ width height ab fs) \<and>
           fn = path_join tdir (''xxx.'' @ derive_suffix (mimetypes E) mime) \<and>
           args (hd (execs (events_of E mime input typ width height ab fs))) =
             [''--headless'', ''--disable-gpu'', ''--no-sandbox'', ''--screenshot'',
              ''--window-size='' @ str_int width @ '','' @ str_int height,
              ''--default-background-color=00000000'', fn] \<and>
           cwd (hd (execs (events_of E mime input typ width height ab fs))) = Some tdir"
  using assms
  by (cases rule: run_cases[of mime input ab E "typ" width height fs])
     (simp_all add: browser_call_def)

text \<open>
  The theorem at the default width and height, on the sample system.
\<close>

theorem browser_invocation_witness:
  "execs (events_of sample_env ''html'' (Str ''<p>hi</p>'') ''png'' 1000 2000 None fs0) \<noteq> [] \<and>
   args (hd (execs (events_of sample_env ''html'' (Str ''<p>hi</p>'') ''png'' 1000 2000 None fs0))) =
     [''--headless'', ''--disable-gpu'', ''--no-sandbox'', ''--screenshot'',
      ''--window-size=1000,2000'', ''--default-background-color=00000000'',
      ''/tmp/tmpk3/xxx.html''] \<and>
   cwd (hd (execs (events_of sample_env ''html'' (Str ''<p>hi</p>'') ''png'' 1000 2000 None fs0))) =
     Some ''/tmp/tmpk3''"
proof -
  have h: "execs (events_of sample_env ''html'' (Str ''<p>hi</p>'') ''png'' 1000 2000 None fs0) \<noteq> []"
    by (simp add: run_defs sample_defs call_defs Let_def)
  have ev: "MkDTemp tdir \<in> set (events_of sample_env ''html'' (Str ''<p>hi</p>'') ''png'' 1000 2000 None fs0)
      \<longleftrightarrow> tdir = ''/tmp/tmpk3''" for tdir
    by (auto simp add: run_defs sample_defs call_defs Let_def)
  have tbl: "derive_suffix (mimetypes sample_env) ''html'' = ''html''"
    by (simp add: sample_defs)
  have n: "str_int 1000 = ''1000''" "str_int 2000 = ''2000''"
    by (simp_all add: str_int_def str_nat.simps)
  from browser_invocation[OF h] h show ?thesis
    by (auto simp: ev tbl n path_join_def)
qed

subsection \<open>C6: the invocation of the converter and the value returned\<close>

text \<open>
  C6. Whenever the converter is run, it is run on \<^verbatim>\<open>screenshot.png\<close> in the temporary
  directory, with \<^verbatim>\<open>-trim +repage\<close>, then the flatten arguments unless \<^verbatim>\<open>typ\<close> is \<^verbatim>\<open>png\<close>,
  then \<^verbatim>\<open><typ>:-\<close>, and with \<^verbatim>\<open>text=False\<close>. The call returns \<^verbatim>\<open>out\<close> exactly when the
  converter was run, exited with code 0 and printed \<^verbatim>\<open>out\<close> on its standard output, and
  the temporary directory was then removed without an error.
\<close>

theorem convert_invocation:
  "(\<forall>pc r. Exec pc r \<in> set (events_of E mime input typ width height ab fs) \<and> cmd pc = ''convert''
      \<longrightarrow> (\<exists>tdir. MkDTemp tdir \<in> set (events_of E mime input typ width height ab fs) \<and>
             pc = \<lparr>cmd = ''convert'',
                   args = [pjoin tdir ''screenshot.png'', ''-trim'', ''+repage'']
                          @ (if typ = ''png'' then []
                             else [''-background'', ''white'', ''-flatten'', ''-alpha'', ''off''])
                          @ [typ @ '':-''],
                   cwd = None, text_opt = Some False\<rparr>)) \<and>
   (\<forall>out. result_of E mime input typ width height ab fs = Inr out \<longleftrightarrow>
      (\<exists>pc err tdir. cmd pc = ''convert'' \<and>
         Exec pc (Inr (0, out, err)) \<in> set (events_of E mime input typ width height ab fs) \<and>
         Cleanup tdir None \<in> set (events_of E mime input typ width height ab fs)))"
proof (intro conjI allI impI)
  fix pc r
  assume a: "Exec pc r \<in> set (events_of E mime input typ width height ab fs) \<and> cmd pc = ''convert''"
  then obtain tdir where "MkDTemp tdir \<in> set (events_of E mime input typ width height ab fs)"
    and "pc = convert_call tdir typ"
    using convert_events[of pc r E mime input "typ" width height ab fs] by blast
  then show "\<exists>tdir. MkDTemp tdir \<in> set (events_of E mime input typ width height ab fs) \<and>
             pc = \<lparr>cmd = ''convert'',
                   args = [pjoin tdir ''screenshot.png'', ''-trim'', ''+repage'']
                          @ (if typ = ''png'' then []
                             else [''-background'', ''white'', ''-flatten'', ''-alpha'', ''off''])
                          @ [typ @ '':-''],
                   cwd = None, text_opt = Some False\<rparr>"
    unfolding convert_call_def moreargs_def by blast
next
  fix out
  show "result_of E mime input typ width height ab fs = Inr out \<longleftrightarrow>
      (\<exists>pc err tdir. cmd pc = ''convert'' \<and>
         Exec pc (Inr (0, out, err)) \<in> set (events_of E mime input typ width height ab fs) \<and>
         Cleanup tdir None \<in> set (events_of E mime input typ width height ab fs))"
  proof
    assume "result_of E mime input typ width height ab fs = Inr out"
    from result_events[OF this] show "\<exists>pc err tdir. cmd pc = ''convert'' \<and>
         Exec pc (Inr (0, out, err)) \<in> set (events_of E mime input typ width height ab fs) \<and>
         Cleanup tdir None \<in> set (events_of E mime input typ width height ab fs)"
      using cmd_convert_call by blast
  next
    assume "\<exists>pc err tdir. cmd pc = ''convert'' \<and>
         Exec pc (Inr (0, out, err)) \<in> set (events_of E mime input typ width height ab fs) \<and>
         Cleanup tdir None \<in> set (events_of E mime input typ width height ab fs)"
    then obtain pc err tdir where c: "cmd pc = ''convert''"
      and x: "Exec pc (Inr (0, out, err)) \<in> set (events_of E mime input typ width height ab fs)"
      and k: "Cleanup tdir None \<in> set (events_of E mime input typ width height ab fs)"
      by blast
    from convert_events[OF x c] obtain tdir' oc
      where k': "Cleanup tdir' oc \<in> set (events_of E mime input typ width height ab fs)"
        and res: "result_of E mime input typ width height ab fs =
             (case oc of Some e \<Rightarrow> Inl e | None \<Rightarrow> Inr out)"
      by (auto cong: option.case_cong)
    from cleanup_unique[OF k k'] have "oc = None" by simp
    with res show "result_of E mime input typ width height ab fs = Inr out" by simp
  qed
qed

text \<open>
  The theorem at the output type \<^verbatim>\<open>jpg\<close>, on the sample system: from the event of the
  converter to the value returned.
\<close>

theorem convert_invocation_witness:
  "Exec \<lparr>cmd = ''convert'',
         args = [''/tmp/tmpk3/screenshot.png'', ''-trim'', ''+repage'',
                 ''-background'', ''white'', ''-flatten'', ''-alpha'', ''off'', ''jpg:-''],
         cwd = None, text_opt = Some False\<rparr>
      (Inr (0, Bytes [0x89, 0x50, 0x4E, 0x47], Bytes []))
     \<in> set (events_of sample_env ''html'' (Str ''<p>hi</p>'') ''jpg'' 1000 2000 None fs0) \<and>
   result_of sample_env ''html'' (Str ''<p>hi</p>'') ''jpg'' 1000 2000 None fs0
     = Inr (Bytes [0x89, 0x50, 0x4E, 0x47])"
proof -
  have h: "Exec \<lparr>cmd = ''convert'',
         args = [''/tmp/tmpk3/screenshot.png'', ''-trim'', ''+repage'',
                 ''-background'', ''white'', ''-flatten'', ''-alpha'', ''off'', ''jpg:-''],
         cwd = None, text_opt = Some False\<rparr>
      (Inr (0, Bytes [0x89, 0x50, 0x4E, 0x47], Bytes []))
     \<in> set (events_of sample_env ''html'' (Str ''<p>hi</p>'') ''jpg'' 1000 2000 None fs0)"
    by (simp add: run_defs sample_defs call_defs Let_def)
  have c: "cmd \<lparr>cmd = ''convert'',
         args = [''/tmp/tmpk3/screenshot.png'', ''-trim'', ''+repage'',
                 ''-background'', ''white'', ''-flatten'', ''-alpha'', ''off'', ''jpg:-''],
         cwd = None, text_opt = Some False\<rparr> = ''convert''"
    by simp
  have k: "Cleanup ''/tmp/tmpk3'' None
     \<in> set (events_of sample_env ''html'' (Str ''<p>hi</p>'') ''jpg'' 1000 2000 None fs0)"
    by (simp add: run_defs sample_defs call_defs Let_def)
  from convert_invocation[of sample_env "''html''" "Str ''<p>hi</p>''" "''jpg''" 1000 2000 None fs0]
  have "result_of sample_env ''html'' (Str ''<p>hi</p>'') ''jpg'' 1000 2000 None fs0
     = Inr (Bytes [0x89, 0x50, 0x4E, 0x47])"
    using h c k by blast
  with h show ?thesis by simp
qed

subsection \<open>C7: a failing tool fails the call\<close>

text \<open>
  C7. When a process of the call cannot be launched or exits with a code other than zero,
  the call raises an error, so it returns no image. Every process before the failing one
  had succeeded, and nothing follows it but the attempt to remove the temporary
  directory: no second attempt, no other process, nothing caught. When the removal
  succeeds, the error raised is that of the tool (the error of the launch, or
  \<^verbatim>\<open>CalledProcessError\<close> with the exit code); when the removal fails too, the error raised
  is that of the removal.
\<close>

theorem tool_failure_propagates:
  assumes "Exec pc r \<in> set (events_of E mime input typ width height ab fs)"
    and "failed r"
  shows "(\<exists>e. result_of E mime input typ width height ab fs = Inl e) \<and>
         (\<exists>pre tdir oc.
            events_of E mime input typ width height ab fs
              = pre @ [Exec pc r, Cleanup tdir oc] \<and>
            (\<forall>pc' r'. Exec pc' r' \<in> set pre \<longrightarrow> \<not> failed r') \<and>
            (oc = None \<longrightarrow>
               result_of E mime input typ width height ab fs = Inl (raised r)) \<and>
            (\<forall>e. oc = Some e \<longrightarrow> result_of E mime input typ width height ab fs = Inl e))"
proof (cases rule: run_cases[of mime input ab E "typ" width height fs])
  case (type_error e)
  with assms show ?thesis by simp
next
  case (no_tempdir input1 e)
  with assms show ?thesis by simp
next
  case (open_failed input1 tdir e oc fs')
  with assms show ?thesis by simp
next
  case (browser_failed input1 tdir r1 oc fs')
  define fn where "fn = path_join tdir (''xxx.'' @ derive_suffix (mimetypes E) mime)"
  define pre where
    "pre = [MkDTemp tdir, Open fn (if isinstance_bytes input1 then ''wb'' else ''w''),
            Write fn input1]"
  from browser_failed(5) assms(1)
  have ev: "events_of E mime input typ width height ab fs = pre @ [Exec pc r, Cleanup tdir oc]"
    and r: "r = r1"
    by (auto simp: pre_def fn_def)
  have ok: "\<forall>pc' r'. Exec pc' r' \<in> set pre \<longrightarrow> \<not> failed r'"
    by (simp add: pre_def)
  from browser_failed(4) r
  have res: "\<exists>e. result_of E mime input typ width height ab fs = Inl e"
    "oc = None \<longrightarrow> result_of E mime input typ width height ab fs = Inl (raised r)"
    "\<forall>e. oc = Some e \<longrightarrow> result_of E mime input typ width height ab fs = Inl e"
    by (auto split: option.splits)
  from ev ok res show ?thesis by blast
next
  case (convert_failed input1 tdir o1 e1 r2 oc fs')
  define fn where "fn = path_join tdir (''xxx.'' @ derive_suffix (mimetypes E) mime)"
  define pre where
    "pre = [MkDTemp tdir, Open fn (if isinstance_bytes input1 then ''wb'' else ''w''),
            Write fn input1,
            Exec (browser_call (chrome_path (platform E)) width height fn tdir)
              (Inr (0, o1, e1))]"
  from convert_failed(5) assms
  have ev: "events_of E mime input typ width height ab fs = pre @ [Exec pc r, Cleanup tdir oc]"
    and r: "r = r2"
    by (auto simp: pre_def fn_def)
  have ok: "\<forall>pc' r'. Exec pc' r' \<in> set pre \<longrightarrow> \<not> failed r'"
    by (simp add: pre_def)
  from convert_failed(4) r
  have res: "\<exists>e. result_of E mime input typ width height ab fs = Inl e"
    "oc = None \<longrightarrow> result_of E mime input typ width height ab fs = Inl (raised r)"
    "\<forall>e. oc = Some e \<longrightarrow> result_of E mime input typ width height ab fs = Inl e"
    by (auto split: option.splits)
  from ev ok res show ?thesis by blast
next
  case (converted input1 tdir o1 e1 out err oc fs')
  with assms show ?thesis by auto
qed

text \<open>
  The theorem on the system whose browser exits with code 1, on the system whose browser
  cannot be launched, and on the system where the browser exits with code 1 and the
  removal fails as well.
\<close>

theorem tool_failure_propagates_witness:
  "Exec \<lparr>cmd = ''google-chrome'',
         args = [''--headless'', ''--disable-gpu'', ''--no-sandbox'', ''--screenshot'',
                 ''--window-size=1000,2000'', ''--default-background-color=00000000'',
                 ''/tmp/tmpk3/xxx.html''],
         cwd = Some ''/tmp/tmpk3'', text_opt = None\<rparr>
      (Inr (1, Str [], Str ''no display''))
     \<in> set (events_of broken_env ''html'' (Str ''<p>hi</p>'') ''png'' 1000 2000 None fs0) \<and>
   failed (Inr (1, Str [], Str ''no display'')) \<and>
   result_of broken_env ''html'' (Str ''<p>hi</p>'') ''png'' 1000 2000 None fs0
     = Inl (CalledProcessError 1 (Str []) (Str ''no display'')) \<and>
   Exec \<lparr>cmd = ''google-chrome'',
         args = [''--headless'', ''--disable-gpu'', ''--no-sandbox'', ''--screenshot'',
                 ''--window-size=1000,2000'', ''--default-background-color=00000000'',
                 ''/tmp/tmpk3/xxx.html''],
         cwd = Some ''/tmp/tmpk3'', text_opt = None\<rparr>
      (Inl (OSError ''No such file or directory''))
     \<in> set (events_of missing_env ''html'' (Str ''<p>hi</p>'') ''png'' 1000 2000 None fs0) \<and>
   failed (Inl (OSError ''No such file or directory'')) \<and>
   result_of missing_env ''html'' (Str ''<p>hi</p>'') ''png'' 1000 2000 None fs0
     = Inl (OSError ''No such file or directory'') \<and>
   Exec \<lparr>cmd = ''google-chrome'',
         args = [''--headless'', ''--disable-gpu'', ''--no-sandbox'', ''--screenshot'',
                 ''--window-size=1000,2000'', ''--default-background-color=00000000'',
                 ''/tmp/tmpk3/xxx.html''],
         cwd = Some ''/tmp/tmpk3'', text_opt = None\<rparr>
      (Inr (1, Str [], Str ''no display''))
     \<in> set (events_of broken_stuck_env ''html'' (Str ''<p>hi</p>'') ''png'' 1000 2000 None fs0) \<and>
   result_of broken_stuck_env ''html'' (Str ''<p>hi</p>'') ''png'' 1000 2000 None fs0
     = Inl (OSError ''Operation not permitted'')"
proof -
  let ?bc = "\<lparr>cmd = ''google-chrome'',
         args = [''--headless'', ''--disable-gpu'', ''--no-sandbox'', ''--screenshot'',
                 ''--window-size=1000,2000'', ''--default-background-color=00000000'',
                 ''/tmp/tmpk3/xxx.html''],
         cwd = Some ''/tmp/tmpk3'', text_opt = None\<rparr>"
  have h1: "Exec ?bc (Inr (1, Str [], Str ''no display''))
     \<in> set (events_of broken_env ''html'' (Str ''<p>hi</p>'') ''png'' 1000 2000 None fs0)"
    by (simp add: run_defs sample_defs call_defs Let_def)
  have e1: "events_of broken_env ''html'' (Str ''<p>hi</p>'') ''png'' 1000 2000 None fs0 =
      pre @ [Exec ?bc (Inr (1, Str [], Str ''no display'')), Cleanup tdir oc] \<Longrightarrow> oc = None"
    for pre tdir oc
    by (simp add: run_defs sample_defs call_defs Let_def)
  have f1: "failed (Inr (1, Str [], Str ''no display''))" by simp
  have h2: "Exec ?bc (Inl (OSError ''No such file or directory''))
     \<in> set (events_of missing_env ''html'' (Str ''<p>hi</p>'') ''png'' 1000 2000 None fs0)"
    by (simp add: run_defs sample_defs call_defs Let_def)
  have e2: "events_of missing_env ''html'' (Str ''<p>hi</p>'') ''png'' 1000 2000 None fs0 =
      pre @ [Exec ?bc (Inl (OSError ''No such file or directory'')), Cleanup tdir oc]
      \<Longrightarrow> oc = None"
    for pre tdir oc
    by (simp add: run_defs sample_defs call_defs Let_def)
  have f2: "failed (Inl (OSError ''No such file or directory''))" by simp
  have h3: "Exec ?bc (Inr (1, Str [], Str ''no display''))
     \<in> set (events_of broken_stuck_env ''html'' (Str ''<p>hi</p>'') ''png'' 1000 2000 None fs0)"
    by (simp add: run_defs sample_defs call_defs Let_def)
  have e3: "events_of broken_stuck_env ''html'' (Str ''<p>hi</p>'') ''png'' 1000 2000 None fs0 =
      pre @ [Exec ?bc (Inr (1, Str [], Str ''no display'')), Cleanup tdir oc]
      \<Longrightarrow> oc = Some (OSError ''Operation not permitted'')"
    for pre tdir oc
    by (simp add: run_defs sample_defs call_defs Let_def)
  from tool_failure_propagates[OF h1 f1] e1
  have r1: "result_of broken_env ''html'' (Str ''<p>hi</p>'') ''png'' 1000 2000 None fs0
     = Inl (CalledProcessError 1 (Str []) (Str ''no display''))"
    by fastforce
  from tool_failure_propagates[OF h2 f2] e2
  have r2: "result_of missing_env ''html'' (Str ''<p>hi</p>'') ''png'' 1000 2000 None fs0
     = Inl (OSError ''No such file or directory'')"
    by fastforce
  from tool_failure_propagates[OF h3 f1] e3
  have r3: "result_of broken_stuck_env ''html'' (Str ''<p>hi</p>'') ''png'' 1000 2000 None fs0
     = Inl (OSError ''Operation not permitted'')"
    by fastforce
  from h1 f1 r1 h2 f2 r2 h3 r3 show ?thesis by simp
qed

subsection \<open>C8: the browser executable\<close>

text \<open>
  C8. Whenever the call starts a process, the executable of the first one is
  \<^verbatim>\<open>/Applications/Google Chrome.app/Contents/MacOS/Google Chrome\<close> when \<^verbatim>\<open>sys.platform\<close> is
  \<^verbatim>\<open>darwin\<close>, and \<^verbatim>\<open>google-chrome\<close> on every other platform.
\<close>

theorem browser_executable:
  assumes "execs (events_of E mime input typ width height ab fs) \<noteq> []"
  shows "cmd (hd (execs (events_of E mime input typ width height ab fs))) =
           (if platform E = ''darwin''
            then ''/Applications/Google Chrome.app/Contents/MacOS/Google Chrome''
            else ''google-chrome'')"
  using assms
  by (cases rule: run_cases[of mime input ab E "typ" width height fs])
     (simp_all add: cmd_browser_call chrome_path_def)

text \<open>
  The theorem on the sample system, once as it is (\<^verbatim>\<open>linux\<close>) and once with the platform
  \<^verbatim>\<open>darwin\<close>.
\<close>

theorem browser_executable_witness:
  "execs (events_of (sample_env\<lparr>platform := ''darwin''\<rparr>) ''html'' (Str ''<p>hi</p>'') ''png''
            1000 2000 None fs0) \<noteq> [] \<and>
   cmd (hd (execs (events_of (sample_env\<lparr>platform := ''darwin''\<rparr>) ''html'' (Str ''<p>hi</p>'')
                     ''png'' 1000 2000 None fs0))) =
     ''/Applications/Google Chrome.app/Contents/MacOS/Google Chrome'' \<and>
   execs (events_of sample_env ''html'' (Str ''<p>hi</p>'') ''png'' 1000 2000 None fs0) \<noteq> [] \<and>
   cmd (hd (execs (events_of sample_env ''html'' (Str ''<p>hi</p>'') ''png'' 1000 2000 None fs0))) =
     ''google-chrome''"
proof -
  have h1: "execs (events_of (sample_env\<lparr>platform := ''darwin''\<rparr>) ''html'' (Str ''<p>hi</p>'')
                     ''png'' 1000 2000 None fs0) \<noteq> []"
    by (simp add: run_defs sample_defs call_defs Let_def)
  have h2: "execs (events_of sample_env ''html'' (Str ''<p>hi</p>'') ''png'' 1000 2000 None fs0) \<noteq> []"
    by (simp add: run_defs sample_defs call_defs Let_def)
  have p1: "platform (sample_env\<lparr>platform := ''darwin''\<rparr>) = ''darwin''" by simp
  have p2: "platform sample_env = ''linux''" by (simp add: sample_env_def)
  from browser_executable[OF h1] browser_executable[OF h2] h1 h2 p1 p2
  show ?thesis by simp
qed

subsection \<open>C9: bytes under an HTML mime\<close>

text \<open>
  C9. For a \<^verbatim>\<open>bytes\<close> input under a mime that contains \<^verbatim>\<open>html\<close>, the call raises
  \<^verbatim>\<open>TypeError\<close> with no effect at all: no directory, no file, no process. A file is opened
  with the flags \<^verbatim>\<open>wb\<close> only for a \<^verbatim>\<open>bytes\<close> input under a mime without \<^verbatim>\<open>html\<close>, and
  for such an input it is opened so as soon as the temporary directory exists.
\<close>

theorem html_bytes_type_error:
  "(sublist ''html'' mime \<longrightarrow>
      result_of E mime (Bytes b) typ width height ab fs = Inl TypeError \<and>
      events_of E mime (Bytes b) typ width height ab fs = [] \<and>
      files_after E mime (Bytes b) typ width height ab fs = fs) \<and>
   (\<forall>fn. Open fn ''wb'' \<in> set (events_of E mime input typ width height ab fs) \<longrightarrow>
      (\<exists>b'. input = Bytes b') \<and> \<not> sublist ''html'' mime) \<and>
   (\<forall>tdir. \<not> sublist ''html'' mime \<and> mkdtemp E fs = Inr tdir \<longrightarrow>
      Open (path_join tdir (''xxx.'' @ derive_suffix (mimetypes E) mime)) ''wb''
        \<in> set (events_of E mime (Bytes b) typ width height ab fs))"
proof (intro conjI allI impI)
  assume h: "sublist ''html'' mime"
  then have pre: "prepend_html mime (Bytes b) ab = Inl TypeError"
    by (simp add: prepend_html_Bytes)
  then have "render_to_img E mime (Bytes b) typ width height ab \<lparr>files = fs, trace = []\<rparr>
      = (Inl TypeError, \<lparr>files = fs, trace = []\<rparr>)"
    by (simp add: render_to_img_def)
  then show "result_of E mime (Bytes b) typ width height ab fs = Inl TypeError"
    and "events_of E mime (Bytes b) typ width height ab fs = []"
    and "files_after E mime (Bytes b) typ width height ab fs = fs"
    by (simp_all add: result_of_def events_of_def files_after_def)
next
  fix fn
  assume o: "Open fn ''wb'' \<in> set (events_of E mime input typ width height ab fs)"
  have "\<exists>input1. prepend_html mime input ab = Inr input1 \<and> isinstance_bytes input1"
    using o
    by (cases rule: run_cases[of mime input ab E "typ" width height fs])
       (auto split: if_splits)
  then obtain input1 where "prepend_html mime input ab = Inr input1" "isinstance_bytes input1"
    by blast
  from prepend_html_bytes_result[OF this]
  show "\<exists>b'. input = Bytes b'" and "\<not> sublist ''html'' mime" by simp_all
next
  fix tdir
  assume a: "\<not> sublist ''html'' mime \<and> mkdtemp E fs = Inr tdir"
  then have pre: "prepend_html mime (Bytes b) ab = Inr (Bytes b)"
    by (simp add: prepend_html_Bytes)
  from a pre
  show "Open (path_join tdir (''xxx.'' @ derive_suffix (mimetypes E) mime)) ''wb''
        \<in> set (events_of E mime (Bytes b) typ width height ab fs)"
    by (cases rule: run_cases[of mime "Bytes b" ab E "typ" width height fs]) auto
qed

text \<open>
  The theorem at three bytes under \<^verbatim>\<open>text/html\<close> and at two bytes under \<^verbatim>\<open>jpg\<close>, on the
  sample system.
\<close>

theorem html_bytes_type_error_witness:
  "sublist ''html'' ''text/html'' \<and>
   result_of sample_env ''text/html'' (Bytes [0x3C, 0x70, 0x3E]) ''png'' 1000 2000 None fs0
     = Inl TypeError \<and>
   events_of sample_env ''text/html'' (Bytes [0x3C, 0x70, 0x3E]) ''png'' 1000 2000 None fs0 = [] \<and>
   \<not> sublist ''html'' ''jpg'' \<and>
   mkdtemp sample_env fs0 = Inr ''/tmp/tmpk3'' \<and>
   Open ''/tmp/tmpk3/xxx.jpg'' ''wb''
     \<in> set (events_of sample_env ''jpg'' (Bytes [0xFF, 0xD8]) ''png'' 1000 2000 None fs0)"
proof -
  have h1: "sublist ''html'' ''text/html''"
    by (simp add: contains_sublist[symmetric])
  have h2: "\<not> sublist ''html'' ''jpg''"
    by (simp add: contains_sublist[symmetric])
  have h3: "mkdtemp sample_env fs0 = Inr ''/tmp/tmpk3''"
    by (simp add: sample_env_def)
  have s: "path_join ''/tmp/tmpk3'' (''xxx.'' @ derive_suffix (mimetypes sample_env) ''jpg'')
      = ''/tmp/tmpk3/xxx.jpg''"
    by (simp add: sample_defs)
  from html_bytes_type_error[of "''text/html''" sample_env "[0x3C, 0x70, 0x3E]" "''png''" 1000 2000
      None fs0] h1
  have r: "result_of sample_env ''text/html'' (Bytes [0x3C, 0x70, 0x3E]) ''png'' 1000 2000 None fs0
     = Inl TypeError"
    "events_of sample_env ''text/html'' (Bytes [0x3C, 0x70, 0x3E]) ''png'' 1000 2000 None fs0 = []"
    by blast+
  from html_bytes_type_error[of "''jpg''" sample_env "[0xFF, 0xD8]" "''png''" 1000 2000 None fs0]
    h2 h3 s
  have o: "Open ''/tmp/tmpk3/xxx.jpg'' ''wb''
     \<in> set (events_of sample_env ''jpg'' (Bytes [0xFF, 0xD8]) ''png'' 1000 2000 None fs0)"
    by metis
  from h1 h2 h3 r o show ?thesis by simp
qed

subsection \<open>C10: the HTML directives follow the substring test\<close>

text \<open>
  C10. For a text input, the content written carries the directives (the meta directive,
  behind the base-href directive when \<^verbatim>\<open>asset_base\<close> is given) when \<^verbatim>\<open>html\<close> occurs in
  \<^verbatim>\<open>mime\<close> as a substring, and is the input unchanged when it does not; the alias table
  plays no part. (A \<^verbatim>\<open>bytes\<close> input under such a mime is the matter of C9.)
\<close>

theorem html_preprocessing_iff_substring:
  assumes "Write fn c \<in> set (events_of E mime (Str s) typ width height asset_base fs)"
  shows \<open>(sublist ''html'' mime \<longrightarrow>
            c = Str ((case asset_base of None \<Rightarrow> [] | Some ab \<Rightarrow> ''<base href="file://'' @ ab @ ''/">'')
                     @ ''<meta http-equiv="Content-Type" content="text/html; charset=utf-8"/>'' @ s)) \<and>
         (\<not> sublist ''html'' mime \<longrightarrow> c = Str s) \<and>
         (c \<noteq> Str s \<longleftrightarrow> sublist ''html'' mime)\<close>
proof -
  define pre where
    "pre = (case asset_base of None \<Rightarrow> [] | Some ab \<Rightarrow> base_directive ab) @ meta_directive"
  have ne: "pre \<noteq> []" by (simp add: pre_def meta_directive_def)
  have "c = Str (if sublist ''html'' mime then pre @ s else s)"
    using assms prepend_html_Str[of mime s asset_base]
    by (cases rule: run_cases[of mime "Str s" asset_base E "typ" width height fs])
       (auto simp: pre_def)
  with ne show ?thesis
    by (auto simp: pre_def meta_directive_def base_directive_def split: option.splits)
qed

text \<open>
  The theorem at the full MIME string \<^verbatim>\<open>application/xhtml+xml\<close>, which contains \<^verbatim>\<open>html\<close>,
  and at the alias \<^verbatim>\<open>svg\<close>, which does not, there with an \<^verbatim>\<open>asset_base\<close>.
\<close>

theorem html_preprocessing_iff_substring_witness:
  \<open>sublist ''html'' ''application/xhtml+xml'' \<and>
   Write ''/tmp/tmpk3/xxx.xhtml''
     (Str ''<meta http-equiv="Content-Type" content="text/html; charset=utf-8"/><p>hi</p>'')
     \<in> set (events_of sample_env ''application/xhtml+xml'' (Str ''<p>hi</p>'') ''png'' 1000 2000 None fs0) \<and>
   \<not> sublist ''html'' ''svg'' \<and>
   Write ''/tmp/tmpk3/xxx.svg'' (Str ''<svg/>'')
     \<in> set (events_of sample_env ''svg'' (Str ''<svg/>'') ''png'' 1000 2000 (Some ''/srv/assets'') fs0) \<and>
   Str ''<meta http-equiv="Content-Type" content="text/html; charset=utf-8"/><p>hi</p>'' \<noteq> Str ''<p>hi</p>''\<close>
proof -
  have h1: "sublist ''html'' ''application/xhtml+xml''"
    by (simp add: contains_sublist[symmetric])
  have h2: "\<not> sublist ''html'' ''svg''"
    by (simp add: contains_sublist[symmetric])
  have w1: \<open>Write ''/tmp/tmpk3/xxx.xhtml''
     (Str ''<meta http-equiv="Content-Type" content="text/html; charset=utf-8"/><p>hi</p>'')
     \<in> set (events_of sample_env ''application/xhtml+xml'' (Str ''<p>hi</p>'') ''png'' 1000 2000 None fs0)\<close>
    by (simp add: run_defs sample_defs call_defs Let_def)
  have w2: "Write ''/tmp/tmpk3/xxx.svg'' (Str ''<svg/>'')
     \<in> set (events_of sample_env ''svg'' (Str ''<svg/>'') ''png'' 1000 2000 (Some ''/srv/assets'') fs0)"
    by (simp add: run_defs sample_defs call_defs Let_def)
  from html_preprocessing_iff_substring[OF w1] html_preprocessing_iff_substring[OF w2] h1 h2 w1 w2
  show ?thesis by simp
qed

end
